theory Spec2Isabelle
  imports Complex_Main "HOL-Library.Sublist"
begin

section \<open>Strings\<close>

text \<open>
  A JavaScript string is modelled as a \<^typ>\<open>string\<close> holding its UTF-8 bytes. The keywords the
  orchestrator searches for are ASCII, and an ASCII byte never occurs inside a multi-byte
  UTF-8 sequence, so \<open>includesStr\<close> on bytes agrees with \<open>String.prototype.includesStr\<close> on
  characters. \<open>toLowerCase\<close> is modelled on the ASCII letters \<open>A\<close> to \<open>Z\<close>; every other byte
  is left as it is (the model says nothing about characters outside ASCII whose lower-case
  form is an ASCII letter).
\<close>

definition toLowerChar :: "char \<Rightarrow> char" where
  "toLowerChar c =
     (let n = (of_char c :: nat) in if 65 \<le> n \<and> n \<le> 90 then char_of (n + 32) else c)"

definition toLowerCase :: "string \<Rightarrow> string" where
  "toLowerCase s = map toLowerChar s"

text \<open>\<open>s.includesStr(k)\<close>: \<open>k\<close> occurs in \<open>s\<close> as a contiguous run; the empty string occurs everywhere.\<close>

fun includesStr :: "string \<Rightarrow> string \<Rightarrow> bool" where
  "includesStr [] k = (k = [])"
| "includesStr (c # cs) k = (prefix k (c # cs) \<or> includesStr cs k)"

text \<open>Truthiness of a \<open>string | null | undefined\<close> value: the empty string is falsy too.\<close>

definition truthy :: "string option \<Rightarrow> bool" where
  "truthy v = (case v of None \<Rightarrow> False | Some t \<Rightarrow> t \<noteq> [])"

text \<open>\<open>v || undefined\<close> on such a value.\<close>

definition orUndefined :: "string option \<Rightarrow> string option" where
  "orUndefined v = (if truthy v then v else None)"

section \<open>Data model\<close>

record coords =
  coord_x :: rat
  coord_y :: rat

text \<open>\<open>SpatialNode\<close> of \<open>services/snowflake.ts\<close>.\<close>

record SpatialNode =
  node_id :: string
  buildingId :: string
  coordinates :: coords
  node_description :: string
  isGoldenPath :: bool

text \<open>\<open>Omit<SpatialNode, "id">\<close>, the argument of \<open>saveNewPath\<close>.\<close>

record NewNode =
  new_buildingId :: string
  new_coordinates :: coords
  new_description :: string
  new_isGoldenPath :: bool

text \<open>\<open>SceneAnalysis\<close> of \<open>services/gemini.ts\<close>; \<open>null\<close> and a missing field are both \<open>None\<close>.\<close>

record SceneAnalysis =
  scene_description :: string
  hazard :: "string option"
  navigation :: "string option"

text \<open>
  What \<open>JSON.parse\<close> hands back for the model's answer text. \<open>describeScene\<close> returns it
  unchecked, so the answer text \<open>null\<close> reaches the callers as \<open>null\<close>, and reading a field
  of it throws. Every other answer is read through the fields of \<open>SceneAnalysis\<close> (the
  response schema requires the description).
\<close>

datatype scene_json = JsonNull | JsonScene SceneAnalysis

section \<open>The world outside the program\<close>

text \<open>
  Every network call, browser call and random draw is answered by the world, a record of
  functions from the request to the outcome. A statement SQL text is represented by the
  request it encodes.
\<close>

datatype registry_request =
    SearchSql string string
  | GoldenPathSql string
  | CreateTableSql
  | InsertSql string NewNode

datatype cell = CellString string | CellBool bool

record raw_row =
  row_id :: string
  row_building :: string
  row_coords :: string
  row_desc :: string
  row_golden :: cell

record registry_body =
  body_data :: "raw_row list option"
  body_code :: "string option"
  body_message :: "string option"
  body_error :: "string option"
  body_hint :: "string option"
  body_detail :: "string option"

text \<open>
  The outcome of \<open>fetch\<close> followed by \<open>response.json()\<close>: the fetch rejects, the body is not
  JSON (\<open>json()\<close> rejects), or a JSON object arrives. The string is the error's message.
\<close>

datatype registry_response =
    FetchRejected string
  | NotJson string
  | JsonBody registry_body

datatype eleven_response = ElevenRejected | ElevenNotOk | ElevenBlob string

datatype play_result = PlayStarted | PlayAborted | PlayFailed

record gen_request =
  req_prompt :: string
  req_image :: string
  req_language :: string
  req_target :: string

datatype gen_result = GenThrows | GenText "string option"

record world =
  videoMounted :: bool
  canvasMounted :: bool
  audioMounted :: bool
  hasSpeechRecognition :: bool
  frame :: string
  elevenApiKey :: string
  elevenVoiceId :: string
  elevenFetch :: "string \<Rightarrow> eleven_response"
  audioPlay :: "string \<Rightarrow> play_result"
  snowflakeExecute :: "registry_request \<Rightarrow> registry_response"
  jsonParseCoords :: "string \<Rightarrow> string + coords"
  geminiGenerate :: "gen_request \<Rightarrow> gen_result"
  jsonParseScene :: "string \<Rightarrow> scene_json option"
  randomId :: string
  randomCoords :: coords

section \<open>ElevenLabsService\<close>

text \<open>\<open>speak\<close> returns the audio URL, or \<open>null\<close> when credentials are missing or the call fails.\<close>

definition elevenLabs_speak :: "world \<Rightarrow> string \<Rightarrow> string option" where
  "elevenLabs_speak w text =
     (if elevenApiKey w = [] \<or> elevenVoiceId w = [] \<or> elevenApiKey w = ''MY_ELEVENLABS_KEY''
      then None
      else (case elevenFetch w text of
              ElevenRejected \<Rightarrow> None
            | ElevenNotOk \<Rightarrow> None
            | ElevenBlob url \<Rightarrow> Some url))"

section \<open>SnowflakeService\<close>

definition rowToNode :: "world \<Rightarrow> raw_row \<Rightarrow> string + SpatialNode" where
  "rowToNode w row =
     (case jsonParseCoords w (row_coords row) of
        Inl msg \<Rightarrow> Inl msg
      | Inr c \<Rightarrow> Inr \<lparr> node_id = row_id row, buildingId = row_building row, coordinates = c,
                       node_description = row_desc row,
                       isGoldenPath = (row_golden row = CellString ''TRUE'' \<or> row_golden row = CellBool True) \<rparr>)"

text \<open>\<open>data.data.map(...)\<close>: the first row whose coordinates do not parse throws.\<close>

fun mapRows :: "world \<Rightarrow> raw_row list \<Rightarrow> string + SpatialNode list" where
  "mapRows w [] = Inr []"
| "mapRows w (row # rows) =
     (case rowToNode w row of
        Inl msg \<Rightarrow> Inl msg
      | Inr n \<Rightarrow> (case mapRows w rows of Inl msg \<Rightarrow> Inl msg | Inr ns \<Rightarrow> Inr (n # ns)))"

text \<open>The body of the \<open>try\<close> block shared by the two read operations; \<open>Inl\<close> is a throw.\<close>

definition readRows :: "world \<Rightarrow> registry_request \<Rightarrow> string + SpatialNode list" where
  "readRows w req =
     (case snowflakeExecute w req of
        FetchRejected msg \<Rightarrow> Inl msg
      | NotJson msg \<Rightarrow> Inl msg
      | JsonBody b \<Rightarrow> (case body_data b of None \<Rightarrow> Inr [] | Some rows \<Rightarrow> mapRows w rows))"

text \<open>\<open>try { ... } catch (error) { return []; }\<close>\<close>

definition searchRegistry :: "world \<Rightarrow> string \<Rightarrow> string \<Rightarrow> SpatialNode list" where
  "searchRegistry w query building =
     (case readRows w (SearchSql building (toLowerCase query)) of Inl msg \<Rightarrow> [] | Inr ns \<Rightarrow> ns)"

definition fetchGoldenPath :: "world \<Rightarrow> string \<Rightarrow> SpatialNode list" where
  "fetchGoldenPath w building =
     (case readRows w (GoldenPathSql building) of Inl msg \<Rightarrow> [] | Inr ns \<Rightarrow> ns)"

definition orElse :: "string option \<Rightarrow> string option \<Rightarrow> string option" where
  "orElse a b = (if truthy a then a else b)"

definition saveErrorMessage :: "registry_body \<Rightarrow> string" where
  "saveErrorMessage b =
     ''Snowflake Save Failed: ''
       @ (case orElse (orElse (body_message b) (body_error b)) (Some ''Unknown Snowflake error'') of
            Some m \<Rightarrow> m | None \<Rightarrow> ''undefined'')
       @ (case body_hint b of Some h \<Rightarrow> (if h = [] then [] else [CHR 0x0A] @ ''Hint: '' @ h) | None \<Rightarrow> [])
       @ (case body_detail b of Some d \<Rightarrow> (if d = [] then [] else [CHR 0x0A] @ ''Detail: '' @ d) | None \<Rightarrow> [])"

text \<open>
  \<open>saveNewPath\<close>: the result (\<open>Inl\<close> the message of the error thrown, \<open>Inr\<close> the new id) and
  the statements sent, in order. The second statement is sent only when the first fetch
  did not reject.
\<close>

definition saveNewPath :: "world \<Rightarrow> NewNode \<Rightarrow> (string + string) \<times> registry_request list" where
  "saveNewPath w node =
     (let ident = ''node_'' @ randomId w in
      case snowflakeExecute w CreateTableSql of
        FetchRejected msg \<Rightarrow> (Inl msg, [CreateTableSql])
      | _ \<Rightarrow>
        (case snowflakeExecute w (InsertSql ident node) of
           FetchRejected msg \<Rightarrow> (Inl msg, [CreateTableSql, InsertSql ident node])
         | NotJson msg \<Rightarrow> (Inl msg, [CreateTableSql, InsertSql ident node])
         | JsonBody b \<Rightarrow>
             (if body_code b = Some ''000000'' then Inr ident else Inl (saveErrorMessage b),
              [CreateTableSql, InsertSql ident node])))"

section \<open>GeminiService\<close>

definition fence :: string where
  "fence = replicate 3 (CHR 0x60)"

text \<open>\<open>text.replace(/```json\n?|```/g, "")\<close>, scanning from the left.\<close>

function stripFences :: "string \<Rightarrow> string" where
  "stripFences [] = []"
| "stripFences (c # cs) =
     (if prefix (fence @ ''json'' @ [CHR 0x0A]) (c # cs) then stripFences (drop 8 (c # cs))
      else if prefix (fence @ ''json'') (c # cs) then stripFences (drop 7 (c # cs))
      else if prefix fence (c # cs) then stripFences (drop 3 (c # cs))
      else c # stripFences cs)"
  by pat_completeness auto
termination
  by (relation "measure length") auto

text \<open>\<open>trim()\<close>, on the ASCII white space characters.\<close>

definition isSpace :: "char \<Rightarrow> bool" where
  "isSpace c = (c \<in> set [CHR 0x20, CHR 0x09, CHR 0x0A, CHR 0x0B, CHR 0x0C, CHR 0x0D])"

definition trim :: "string \<Rightarrow> string" where
  "trim s = rev (dropWhile isSpace (rev (dropWhile isSpace s)))"

definition scenePrompt :: "string option \<Rightarrow> string option \<Rightarrow> string \<Rightarrow> string" where
  "scenePrompt question navTarget targetLanguage =
     (if truthy question
      then ''The user is asking: '' @ [CHR 0x22] @ the question @ [CHR 0x22]
             @ ''. Based on the image, provide a precise spatial answer in '' @ targetLanguage @ ''.''
      else if truthy navTarget
      then ''I am looking for the '' @ the navTarget @ ''. Guide me based on what you see in ''
             @ targetLanguage @ ''.''
      else ''Describe the scene ahead in '' @ targetLanguage @ ''.'')"

definition emptyResponseText :: string where
  "emptyResponseText =
     ''{'' @ [CHR 0x22] @ ''description'' @ [CHR 0x22] @ '': '' @ [CHR 0x22] @ ''I cannot see clearly.''
       @ [CHR 0x22] @ '', '' @ [CHR 0x22] @ ''hazard'' @ [CHR 0x22] @ '': null}''"

text \<open>
  The request sent to the model. The fixed text of the system instruction is left out; its
  two holes (the language, and the target or \<open>'none'\<close>) are kept.
\<close>

definition sceneRequest :: "string \<Rightarrow> string option \<Rightarrow> string option \<Rightarrow> string \<Rightarrow> gen_request" where
  "sceneRequest img question navTarget targetLanguage =
     \<lparr> req_prompt = scenePrompt question navTarget targetLanguage, req_image = img,
       req_language = targetLanguage,
       req_target = (if truthy navTarget then the navTarget else ''none'') \<rparr>"

text \<open>\<open>response.text || '{...}'\<close>, with the code fences removed and trimmed.\<close>

definition responseText :: "string option \<Rightarrow> string" where
  "responseText t = trim (stripFences (if truthy t then the t else emptyResponseText))"

text \<open>
  The body of the \<open>try\<close> block of \<open>describeScene\<close>: \<open>None\<close> when \<open>generateContent\<close> or
  \<open>JSON.parse\<close> throws.
\<close>

definition describeScene_try ::
  "world \<Rightarrow> string \<Rightarrow> string option \<Rightarrow> string option \<Rightarrow> string \<Rightarrow> scene_json option" where
  "describeScene_try w img question navTarget targetLanguage =
     (case geminiGenerate w (sceneRequest img question navTarget targetLanguage) of
        GenThrows \<Rightarrow> None
      | GenText t \<Rightarrow> jsonParseScene w (responseText t))"

definition visionFallback :: SceneAnalysis where
  "visionFallback =
     \<lparr> scene_description = ''I'm having trouble seeing the path right now.'',
       hazard = Some ''Visual system error.'',
       navigation = None \<rparr>"

text \<open>
  \<open>try { ... return JSON.parse(text); } catch (err) { return { ... } }\<close>: the parsed value
  is returned as it is, the fallback when something was thrown.
\<close>

definition describeScene ::
  "world \<Rightarrow> string \<Rightarrow> string option \<Rightarrow> string option \<Rightarrow> string \<Rightarrow> scene_json" where
  "describeScene w img question navTarget targetLanguage =
     (case describeScene_try w img question navTarget targetLanguage of
        None \<Rightarrow> JsonScene visionFallback
      | Some v \<Rightarrow> v)"

section \<open>The application component\<close>

subsection \<open>Localization\<close>

text \<open>\<open>languageKeywords\<close>, in the order the object literal lists its keys.\<close>

definition languageKeywords :: "(string \<times> string) list" where
  "languageKeywords =
     [(''Spanish'', ''es-ES''), (''French'', ''fr-FR''), (''German'', ''de-DE''),
      (''Chinese'', ''zh-CN''), (''Japanese'', ''ja-JP''), (''Hindi'', ''hi-IN''),
      (''English'', ''en-US''), (''Portuguese'', ''pt-BR''), (''Italian'', ''it-IT'')]"

text \<open>\<open>languageKeywords[name] || 'en-US'\<close>\<close>

definition localeTag :: "string \<Rightarrow> string" where
  "localeTag name = (case map_of languageKeywords name of Some tag \<Rightarrow> tag | None \<Rightarrow> ''en-US'')"

text \<open>The four keys \<open>getSystemMessage\<close> is called with.\<close>

datatype message_key = Navigating | SignHunting | Pinned | PinFailed

fun englishMessages :: "message_key \<Rightarrow> string \<Rightarrow> string" where
  "englishMessages Navigating p =
     ''Navigating to '' @ p @ ''. I will guide you.''"
| "englishMessages SignHunting p =
     ''I'll look for signs for '' @ p @ ''. Let's go.''"
| "englishMessages Pinned p =
     ''Location pinned to spatial registry. Awaiting audit.''"
| "englishMessages PinFailed p =
     ''Failed to save location to registry.''"

fun spanishMessages :: "message_key \<Rightarrow> string \<Rightarrow> string" where
  "spanishMessages Navigating p =
     ''Navegando hacia '' @ p @ ''. Te guiar'' @ [CHR 0xC3, CHR 0xA9] @ ''.''"
| "spanishMessages SignHunting p =
     ''Buscar'' @ [CHR 0xC3, CHR 0xA9] @ '' se'' @ [CHR 0xC3, CHR 0xB1] @ ''ales para '' @ p @ ''. Vamos.''"
| "spanishMessages Pinned p =
     ''Ubicaci'' @ [CHR 0xC3, CHR 0xB3] @ ''n fijada en el registro espacial. Esperando auditor'' @ [CHR 0xC3, CHR 0xAD] @ ''a.''"
| "spanishMessages PinFailed p =
     ''Error al guardar la ubicaci'' @ [CHR 0xC3, CHR 0xB3] @ ''n en el registro.''"

fun frenchMessages :: "message_key \<Rightarrow> string \<Rightarrow> string" where
  "frenchMessages Navigating p =
     ''Navigation vers '' @ p @ ''. Je vais vous guider.''"
| "frenchMessages SignHunting p =
     ''Je vais chercher des panneaux pour '' @ p @ ''. Allons-y.''"
| "frenchMessages Pinned p =
     ''Emplacement '' @ [CHR 0xC3, CHR 0xA9] @ ''pingl'' @ [CHR 0xC3, CHR 0xA9] @ '' dans le registre spatial. En attente d'audit.''"
| "frenchMessages PinFailed p =
     [CHR 0xC3, CHR 0x89] @ ''chec de l'enregistrement de l'emplacement.''"

fun germanMessages :: "message_key \<Rightarrow> string \<Rightarrow> string" where
  "germanMessages Navigating p =
     ''Navigiere zu '' @ p @ ''. Ich werde dich f'' @ [CHR 0xC3, CHR 0xBC] @ ''hren.''"
| "germanMessages SignHunting p =
     ''Ich werde nach Schildern f'' @ [CHR 0xC3, CHR 0xBC] @ ''r '' @ p @ '' suchen. Los geht's.''"
| "germanMessages Pinned p =
     ''Standort im r'' @ [CHR 0xC3, CHR 0xA4] @ ''umlichen Register markiert. Audit ausstehend.''"
| "germanMessages PinFailed p =
     ''Standort konnte nicht im Register gespeichert werden.''"

fun hindiMessages :: "message_key \<Rightarrow> string \<Rightarrow> string" where
  "hindiMessages Navigating p =
     p @ '' '' @ [CHR 0xE0, CHR 0xA4, CHR 0x95, CHR 0xE0, CHR 0xA5, CHR 0x80] @ '' '' @ [CHR 0xE0, CHR 0xA4, CHR 0x93, CHR 0xE0, CHR 0xA4, CHR 0xB0] @ '' '' @ [CHR 0xE0, CHR 0xA4, CHR 0x9C, CHR 0xE0, CHR 0xA4, CHR 0xBE] @ '' '' @ [CHR 0xE0, CHR 0xA4, CHR 0xB0, CHR 0xE0, CHR 0xA4, CHR 0xB9, CHR 0xE0, CHR 0xA5, CHR 0x87] @ '' '' @ [CHR 0xE0, CHR 0xA4, CHR 0xB9, CHR 0xE0, CHR 0xA5, CHR 0x88, CHR 0xE0, CHR 0xA4, CHR 0x82, CHR 0xE0, CHR 0xA5, CHR 0xA4] @ '' '' @ [CHR 0xE0, CHR 0xA4, CHR 0xAE, CHR 0xE0, CHR 0xA5, CHR 0x88, CHR 0xE0, CHR 0xA4, CHR 0x82] @ '' '' @ [CHR 0xE0, CHR 0xA4, CHR 0x86, CHR 0xE0, CHR 0xA4, CHR 0xAA, CHR 0xE0, CHR 0xA4, CHR 0x95, CHR 0xE0, CHR 0xA4, CHR 0xBE] @ '' '' @ [CHR 0xE0, CHR 0xA4, CHR 0xAE, CHR 0xE0, CHR 0xA4, CHR 0xBE, CHR 0xE0, CHR 0xA4, CHR 0xB0, CHR 0xE0, CHR 0xA5, CHR 0x8D, CHR 0xE0, CHR 0xA4, CHR 0x97, CHR 0xE0, CHR 0xA4, CHR 0xA6, CHR 0xE0, CHR 0xA4, CHR 0xB0, CHR 0xE0, CHR 0xA5, CHR 0x8D, CHR 0xE0, CHR 0xA4, CHR 0xB6, CHR 0xE0, CHR 0xA4, CHR 0xA8] @ '' '' @ [CHR 0xE0, CHR 0xA4, CHR 0x95, CHR 0xE0, CHR 0xA4, CHR 0xB0, CHR 0xE0, CHR 0xA5, CHR 0x82, CHR 0xE0, CHR 0xA4, CHR 0x81, CHR 0xE0, CHR 0xA4, CHR 0x97, CHR 0xE0, CHR 0xA4, CHR 0xBE, CHR 0xE0, CHR 0xA5, CHR 0xA4]"
| "hindiMessages SignHunting p =
     [CHR 0xE0, CHR 0xA4, CHR 0xAE, CHR 0xE0, CHR 0xA5, CHR 0x88, CHR 0xE0, CHR 0xA4, CHR 0x82] @ '' '' @ p @ '' '' @ [CHR 0xE0, CHR 0xA4, CHR 0x95, CHR 0xE0, CHR 0xA5, CHR 0x87] @ '' '' @ [CHR 0xE0, CHR 0xA4, CHR 0xB2, CHR 0xE0, CHR 0xA4, CHR 0xBF, CHR 0xE0, CHR 0xA4, CHR 0x8F] @ '' '' @ [CHR 0xE0, CHR 0xA4, CHR 0xB8, CHR 0xE0, CHR 0xA4, CHR 0x82, CHR 0xE0, CHR 0xA4, CHR 0x95, CHR 0xE0, CHR 0xA5, CHR 0x87, CHR 0xE0, CHR 0xA4, CHR 0xA4, CHR 0xE0, CHR 0xA5, CHR 0x8B, CHR 0xE0, CHR 0xA4, CHR 0x82] @ '' '' @ [CHR 0xE0, CHR 0xA4, CHR 0x95, CHR 0xE0, CHR 0xA5, CHR 0x80] @ '' '' @ [CHR 0xE0, CHR 0xA4, CHR 0xA4, CHR 0xE0, CHR 0xA4, CHR 0xB2, CHR 0xE0, CHR 0xA4, CHR 0xBE, CHR 0xE0, CHR 0xA4, CHR 0xB6] @ '' '' @ [CHR 0xE0, CHR 0xA4, CHR 0x95, CHR 0xE0, CHR 0xA4, CHR 0xB0, CHR 0xE0, CHR 0xA5, CHR 0x82, CHR 0xE0, CHR 0xA4, CHR 0x81, CHR 0xE0, CHR 0xA4, CHR 0x97, CHR 0xE0, CHR 0xA4, CHR 0xBE, CHR 0xE0, CHR 0xA5, CHR 0xA4] @ '' '' @ [CHR 0xE0, CHR 0xA4, CHR 0x9A, CHR 0xE0, CHR 0xA4, CHR 0xB2, CHR 0xE0, CHR 0xA4, CHR 0xBF, CHR 0xE0, CHR 0xA4, CHR 0x8F, CHR 0xE0, CHR 0xA5, CHR 0xA4]"
| "hindiMessages Pinned p =
     [CHR 0xE0, CHR 0xA4, CHR 0xB8, CHR 0xE0, CHR 0xA5, CHR 0x8D, CHR 0xE0, CHR 0xA4, CHR 0xA5, CHR 0xE0, CHR 0xA4, CHR 0xBE, CHR 0xE0, CHR 0xA4, CHR 0xA8] @ '' '' @ [CHR 0xE0, CHR 0xA4, CHR 0xB8, CHR 0xE0, CHR 0xA5, CHR 0x8D, CHR 0xE0, CHR 0xA4, CHR 0xA5, CHR 0xE0, CHR 0xA4, CHR 0xBE, CHR 0xE0, CHR 0xA4, CHR 0xA8, CHR 0xE0, CHR 0xA4, CHR 0xBF, CHR 0xE0, CHR 0xA4, CHR 0x95] @ '' '' @ [CHR 0xE0, CHR 0xA4, CHR 0xB0, CHR 0xE0, CHR 0xA4, CHR 0x9C, CHR 0xE0, CHR 0xA4, CHR 0xBF, CHR 0xE0, CHR 0xA4, CHR 0xB8, CHR 0xE0, CHR 0xA5, CHR 0x8D, CHR 0xE0, CHR 0xA4, CHR 0x9F, CHR 0xE0, CHR 0xA5, CHR 0x8D, CHR 0xE0, CHR 0xA4, CHR 0xB0, CHR 0xE0, CHR 0xA5, CHR 0x80] @ '' '' @ [CHR 0xE0, CHR 0xA4, CHR 0xAE, CHR 0xE0, CHR 0xA5, CHR 0x87, CHR 0xE0, CHR 0xA4, CHR 0x82] @ '' '' @ [CHR 0xE0, CHR 0xA4, CHR 0xAA, CHR 0xE0, CHR 0xA4, CHR 0xBF, CHR 0xE0, CHR 0xA4, CHR 0xA8] @ '' '' @ [CHR 0xE0, CHR 0xA4, CHR 0x95, CHR 0xE0, CHR 0xA4, CHR 0xBF, CHR 0xE0, CHR 0xA4, CHR 0xAF, CHR 0xE0, CHR 0xA4, CHR 0xBE] @ '' '' @ [CHR 0xE0, CHR 0xA4, CHR 0x97, CHR 0xE0, CHR 0xA4, CHR 0xAF, CHR 0xE0, CHR 0xA4, CHR 0xBE, CHR 0xE0, CHR 0xA5, CHR 0xA4] @ '' '' @ [CHR 0xE0, CHR 0xA4, CHR 0x91, CHR 0xE0, CHR 0xA4, CHR 0xA1, CHR 0xE0, CHR 0xA4, CHR 0xBF, CHR 0xE0, CHR 0xA4, CHR 0x9F] @ '' '' @ [CHR 0xE0, CHR 0xA4, CHR 0x95, CHR 0xE0, CHR 0xA5, CHR 0x80] @ '' '' @ [CHR 0xE0, CHR 0xA4, CHR 0xAA, CHR 0xE0, CHR 0xA5, CHR 0x8D, CHR 0xE0, CHR 0xA4, CHR 0xB0, CHR 0xE0, CHR 0xA4, CHR 0xA4, CHR 0xE0, CHR 0xA5, CHR 0x80, CHR 0xE0, CHR 0xA4, CHR 0x95, CHR 0xE0, CHR 0xA5, CHR 0x8D, CHR 0xE0, CHR 0xA4, CHR 0xB7, CHR 0xE0, CHR 0xA4, CHR 0xBE] @ '' '' @ [CHR 0xE0, CHR 0xA4, CHR 0xB9, CHR 0xE0, CHR 0xA5, CHR 0x88, CHR 0xE0, CHR 0xA5, CHR 0xA4]"
| "hindiMessages PinFailed p =
     [CHR 0xE0, CHR 0xA4, CHR 0xB0, CHR 0xE0, CHR 0xA4, CHR 0x9C, CHR 0xE0, CHR 0xA4, CHR 0xBF, CHR 0xE0, CHR 0xA4, CHR 0xB8, CHR 0xE0, CHR 0xA5, CHR 0x8D, CHR 0xE0, CHR 0xA4, CHR 0x9F, CHR 0xE0, CHR 0xA5, CHR 0x8D, CHR 0xE0, CHR 0xA4, CHR 0xB0, CHR 0xE0, CHR 0xA5, CHR 0x80] @ '' '' @ [CHR 0xE0, CHR 0xA4, CHR 0xAE, CHR 0xE0, CHR 0xA5, CHR 0x87, CHR 0xE0, CHR 0xA4, CHR 0x82] @ '' '' @ [CHR 0xE0, CHR 0xA4, CHR 0xB8, CHR 0xE0, CHR 0xA5, CHR 0x8D, CHR 0xE0, CHR 0xA4, CHR 0xA5, CHR 0xE0, CHR 0xA4, CHR 0xBE, CHR 0xE0, CHR 0xA4, CHR 0xA8] @ '' '' @ [CHR 0xE0, CHR 0xA4, CHR 0xB8, CHR 0xE0, CHR 0xA4, CHR 0xB9, CHR 0xE0, CHR 0xA5, CHR 0x87, CHR 0xE0, CHR 0xA4, CHR 0x9C, CHR 0xE0, CHR 0xA4, CHR 0xA8, CHR 0xE0, CHR 0xA5, CHR 0x87] @ '' '' @ [CHR 0xE0, CHR 0xA4, CHR 0xAE, CHR 0xE0, CHR 0xA5, CHR 0x87, CHR 0xE0, CHR 0xA4, CHR 0x82] @ '' '' @ [CHR 0xE0, CHR 0xA4, CHR 0xB5, CHR 0xE0, CHR 0xA4, CHR 0xBF, CHR 0xE0, CHR 0xA4, CHR 0xAB, CHR 0xE0, CHR 0xA4, CHR 0xB2, CHR 0xE0, CHR 0xA5, CHR 0xA4]"

text \<open>\<open>messages[currentLanguage] || messages["English"]\<close>\<close>

definition messages :: "string \<Rightarrow> message_key \<Rightarrow> string \<Rightarrow> string" where
  "messages language =
     (if language = ''English'' then englishMessages
      else if language = ''Spanish'' then spanishMessages
      else if language = ''French'' then frenchMessages
      else if language = ''German'' then germanMessages
      else if language = ''Hindi'' then hindiMessages
      else englishMessages)"

text \<open>The localized confirmations of \<open>handleLanguageChange\<close>.\<close>

definition confirmations :: "(string \<times> string) list" where
  "confirmations =
     [(''Spanish'', ''Idioma cambiado a espa'' @ [CHR 0xC3, CHR 0xB1] @ ''ol.''),
      (''French'', ''Langue r'' @ [CHR 0xC3, CHR 0xA9] @ ''gl'' @ [CHR 0xC3, CHR 0xA9] @ ''e sur le fran'' @ [CHR 0xC3, CHR 0xA7] @ ''ais.''),
      (''German'', ''Sprache auf Deutsch eingestellt.''),
      (''Chinese'', [CHR 0xE8, CHR 0xAF, CHR 0xAD, CHR 0xE8, CHR 0xA8, CHR 0x80, CHR 0xE5, CHR 0xB7, CHR 0xB2, CHR 0xE8, CHR 0xAE, CHR 0xBE, CHR 0xE7, CHR 0xBD, CHR 0xAE, CHR 0xE4, CHR 0xB8, CHR 0xBA, CHR 0xE4, CHR 0xB8, CHR 0xAD, CHR 0xE6, CHR 0x96, CHR 0x87, CHR 0xE3, CHR 0x80, CHR 0x82]),
      (''Japanese'', [CHR 0xE8, CHR 0xA8, CHR 0x80, CHR 0xE8, CHR 0xAA, CHR 0x9E, CHR 0xE3, CHR 0x81, CHR 0x8C, CHR 0xE6, CHR 0x97, CHR 0xA5, CHR 0xE6, CHR 0x9C, CHR 0xAC, CHR 0xE8, CHR 0xAA, CHR 0x9E, CHR 0xE3, CHR 0x81, CHR 0xAB, CHR 0xE8, CHR 0xA8, CHR 0xAD, CHR 0xE5, CHR 0xAE, CHR 0x9A, CHR 0xE3, CHR 0x81, CHR 0x95, CHR 0xE3, CHR 0x82, CHR 0x8C, CHR 0xE3, CHR 0x81, CHR 0xBE, CHR 0xE3, CHR 0x81, CHR 0x97, CHR 0xE3, CHR 0x81, CHR 0x9F, CHR 0xE3, CHR 0x80, CHR 0x82]),
      (''Hindi'', [CHR 0xE0, CHR 0xA4, CHR 0xAD, CHR 0xE0, CHR 0xA4, CHR 0xBE, CHR 0xE0, CHR 0xA4, CHR 0xB7, CHR 0xE0, CHR 0xA4, CHR 0xBE] @ '' '' @ [CHR 0xE0, CHR 0xA4, CHR 0xB9, CHR 0xE0, CHR 0xA4, CHR 0xBF, CHR 0xE0, CHR 0xA4, CHR 0x82, CHR 0xE0, CHR 0xA4, CHR 0xA6, CHR 0xE0, CHR 0xA5, CHR 0x80] @ '' '' @ [CHR 0xE0, CHR 0xA4, CHR 0xAE, CHR 0xE0, CHR 0xA5, CHR 0x87, CHR 0xE0, CHR 0xA4, CHR 0x82] @ '' '' @ [CHR 0xE0, CHR 0xA4, CHR 0xB8, CHR 0xE0, CHR 0xA5, CHR 0x87, CHR 0xE0, CHR 0xA4, CHR 0x9F] @ '' '' @ [CHR 0xE0, CHR 0xA4, CHR 0x95, CHR 0xE0, CHR 0xA5, CHR 0x80] @ '' '' @ [CHR 0xE0, CHR 0xA4, CHR 0x97, CHR 0xE0, CHR 0xA4, CHR 0x88] @ '' '' @ [CHR 0xE0, CHR 0xA4, CHR 0xB9, CHR 0xE0, CHR 0xA5, CHR 0x88, CHR 0xE0, CHR 0xA5, CHR 0xA4]),
      (''English'', ''Language set to English.''),
      (''Portuguese'', ''Idioma definido para portugu'' @ [CHR 0xC3, CHR 0xAA] @ ''s.''),
      (''Italian'', ''Lingua impostata su italiano.'')]"

definition confirmation :: "string \<Rightarrow> string" where
  "confirmation langName =
     (case map_of confirmations langName of
        Some c \<Rightarrow> c
      | None \<Rightarrow> ''Language set to '' @ langName @ ''.'')"

subsection \<open>State\<close>

text \<open>
  What the program does to the outside, in the order it does it: a \<open>playMessage\<close> call, the
  hazard sound, a statement sent to the registry, a \<open>describeScene\<close> call with its question,
  navigation target and language arguments, and a recognizer armed with a locale tag.
\<close>

datatype effect =
    Speak string
  | HazardAlert
  | Registry registry_request
  | Vision "string option" "string option" string
  | RecognitionArmed string

record utterance =
  utter_text :: string
  utter_lang :: "string option"

text \<open>
  The \<open>useState\<close> variables of \<open>App\<close>. A handler is a closure of one render: it reads the
  values these variables had in that render, whatever the setters have stored since.
  \<open>solanaBalance\<close> is kept as an exact rational.
\<close>

record react_state =
  isScanning :: bool
  lastDescription :: string
  lastSceneDescription :: string
  audioUrl :: "string option"
  isLoading :: bool
  solanaBalance :: rat
  goldenPath :: "SpatialNode list"
  error :: "string option"
  isAudioPlaying :: bool
  navigationTarget :: "string option"
  isSnowflakeConnected :: "bool option"
  currentLanguage :: string

text \<open>
  The whole state: the \<open>useState\<close> variables, the refs (read live by every closure), the
  render whose \<open>handleUserQuestion\<close> the recognizer's \<open>onresult\<close> calls, the audio element,
  the queue of \<open>window.speechSynthesis\<close>, the texts of the \<open>playMessage\<close> calls that are
  suspended at \<open>await elevenLabs.speak(text)\<close>, and the effects so far (oldest first).
\<close>

record app_state = react_state +
  currentLanguageRef :: string
  recognitionLang :: "string option"
  voiceClosure :: react_state
  audioSrc :: "string option"
  audioActive :: bool
  synthQueue :: "utterance list"
  pendingSpeech :: "string list"
  trace :: "effect list"

text \<open>The values a closure created by the current render captures.\<close>

definition render :: "app_state \<Rightarrow> react_state" where
  "render s = react_state.truncate s"

definition initialReact :: react_state where
  "initialReact =
     \<lparr> isScanning = False, lastDescription = [], lastSceneDescription = [], audioUrl = None,
       isLoading = False, solanaBalance = 1245 / 1000, goldenPath = [], error = None,
       isAudioPlaying = False, navigationTarget = None, isSnowflakeConnected = None,
       currentLanguage = ''English'' \<rparr>"

text \<open>The state after mounting, before the mount effect has run.\<close>

definition initialState :: app_state where
  "initialState =
     react_state.extend initialReact
       \<lparr> currentLanguageRef = ''English'', recognitionLang = None, voiceClosure = initialReact,
         audioSrc = None, audioActive = False, synthQueue = [], pendingSpeech = [],
         trace = [] \<rparr>"

definition emit :: "effect \<Rightarrow> app_state \<Rightarrow> app_state" where
  "emit e s = s\<lparr>trace := trace s @ [e]\<rparr>"

subsection \<open>Speech output\<close>

text \<open>\<open>getSystemMessage(key, param)\<close>; it reads the \<open>currentLanguage\<close> of its render.\<close>

definition getSystemMessage :: "react_state \<Rightarrow> message_key \<Rightarrow> string option \<Rightarrow> string" where
  "getSystemMessage r key param =
     messages (currentLanguage r) key (case param of None \<Rightarrow> ''undefined'' | Some p \<Rightarrow> p)"

text \<open>
  \<open>playMessage(text)\<close> is an \<open>async\<close> function that suspends at
  \<open>await elevenLabs.speak(text)\<close>. Its first part runs when it is called: the playing flag is
  set, local synthesis is cancelled, and the request to ElevenLabs is under way.
\<close>

definition playMessage_begin :: "string \<Rightarrow> app_state \<Rightarrow> app_state" where
  "playMessage_begin text s =
     (emit (Speak text) s)
       \<lparr>isAudioPlaying := True, synthQueue := [], pendingSpeech := pendingSpeech s @ [text]\<rparr>"

text \<open>
  Its second part runs when the answer of ElevenLabs has arrived, in whatever state the page
  is in by then. The outcome of \<open>audio.play()\<close> is taken at once. The browser calls other
  than \<open>audio.play()\<close> are taken not to throw, so the outer \<open>catch\<close> (which repeats the
  local-synthesis branch) is not reached.
\<close>

definition playMessage_resume :: "world \<Rightarrow> string \<Rightarrow> app_state \<Rightarrow> app_state" where
  "playMessage_resume w text s =
     (let s2 = s\<lparr>pendingSpeech := remove1 text (pendingSpeech s)\<rparr>;
          voiceUrl = elevenLabs_speak w text
      in if truthy voiceUrl then
           (let s3 = s2\<lparr>audioUrl := voiceUrl\<rparr> in
            if audioMounted w then
              (let s4 = s3\<lparr>audioActive := False, audioSrc := voiceUrl\<rparr> in
               case audioPlay w (the voiceUrl) of
                 PlayStarted \<Rightarrow> s4\<lparr>audioActive := True\<rparr>
               | PlayFailed \<Rightarrow>
                   s4\<lparr>synthQueue := synthQueue s4 @ [\<lparr>utter_text = text, utter_lang = None\<rparr>]\<rparr>
               | PlayAborted \<Rightarrow> s4\<lparr>isAudioPlaying := False\<rparr>)
            else s3)
         else
           s2\<lparr>synthQueue := synthQueue s2
                 @ [\<lparr>utter_text = text, utter_lang = Some (localeTag (currentLanguageRef s2))\<rparr>]\<rparr>)"

text \<open>
  \<open>await playMessage(text)\<close> inside a turn: both parts, with nothing else running between
  them.
\<close>

definition playMessage :: "world \<Rightarrow> string \<Rightarrow> app_state \<Rightarrow> app_state" where
  "playMessage w text s = playMessage_resume w text (playMessage_begin text s)"

text \<open>The \<open>ended\<close> listener of the audio element: \<open>handleEnd\<close>.\<close>

definition audioEnded :: "app_state \<Rightarrow> app_state" where
  "audioEnded s = s\<lparr>isAudioPlaying := False, audioActive := False\<rparr>"

text \<open>\<open>utterance.onend\<close> of the utterance at the head of the synthesis queue.\<close>

definition utteranceEnded :: "app_state \<Rightarrow> app_state" where
  "utteranceEnded s = s\<lparr>isAudioPlaying := False, synthQueue := tl (synthQueue s)\<rparr>"

text \<open>The number of outputs that are sounding or queued to sound.\<close>

definition activePlaybacks :: "app_state \<Rightarrow> nat" where
  "activePlaybacks s = (if audioActive s then 1 else 0) + length (synthQueue s)"

text \<open>\<open>playHazardAlert()\<close>: the promise resolves whether or not the sound plays.\<close>

definition playHazardAlert :: "app_state \<Rightarrow> app_state" where
  "playHazardAlert s = emit HazardAlert s"

subsection \<open>Speech recognition and language\<close>

text \<open>
  \<open>setupSpeechRecognition(lang = 'en-US')\<close>, called from a handler of render \<open>r\<close>: the new
  recognizer's \<open>onresult\<close> calls the \<open>handleUserQuestion\<close> of that render.
\<close>

definition setupSpeechRecognition :: "world \<Rightarrow> react_state \<Rightarrow> string option \<Rightarrow> app_state \<Rightarrow> app_state" where
  "setupSpeechRecognition w r lang s =
     (if hasSpeechRecognition w then
        (let tag = (case lang of None \<Rightarrow> ''en-US'' | Some l \<Rightarrow> l)
         in (emit (RecognitionArmed tag) s)\<lparr>recognitionLang := Some tag, voiceClosure := r\<rparr>)
      else s)"

text \<open>
  \<open>handleLanguageChange\<close> calls \<open>playMessage\<close> without awaiting it: only the first part of
  the call runs here.
\<close>

definition handleLanguageChange :: "world \<Rightarrow> react_state \<Rightarrow> string \<Rightarrow> app_state \<Rightarrow> app_state" where
  "handleLanguageChange w r langName s =
     playMessage_begin (confirmation langName)
       (setupSpeechRecognition w r (map_of languageKeywords langName)
          (s\<lparr>currentLanguage := langName, currentLanguageRef := langName\<rparr>))"

subsection \<open>Intent detection\<close>

text \<open>The four phrases of the language-switch test, for one language name.\<close>

definition languageSwitchMatch :: "string \<Rightarrow> string \<Rightarrow> bool" where
  "languageSwitchMatch lowerQuestion langName =
     (let l = toLowerCase langName in
        includesStr lowerQuestion (''speak in '' @ l) \<or>
        includesStr lowerQuestion (''switch to '' @ l) \<or>
        includesStr lowerQuestion (''talk in '' @ l) \<or>
        includesStr lowerQuestion (''change language to '' @ l))"

text \<open>The loop over \<open>Object.entries(languageKeywords)\<close>: the first language that matches.\<close>

definition detectLanguageSwitch :: "string \<Rightarrow> string option" where
  "detectLanguageSwitch lowerQuestion =
     find (languageSwitchMatch lowerQuestion) (map fst languageKeywords)"

definition pinKeywords :: "string list" where
  "pinKeywords =
     [''pin this'', ''save this'', ''remember this'', ''pin location'', ''save location'',
      ''pin'', ''save'']"

definition isPinIntent :: "string \<Rightarrow> bool" where
  "isPinIntent lowerQuestion = list_ex (includesStr lowerQuestion) pinKeywords"

definition navKeywords :: "string list" where
  "navKeywords =
     [''where is'', ''find'', ''navigate to'', ''go to'', ''looking for'', ''washroom'',
      ''toilet'', ''exit'', ''elevator'', ''restroom'']"

definition isNavIntent :: "string \<Rightarrow> bool" where
  "isNavIntent lowerQuestion = list_ex (includesStr lowerQuestion) navKeywords"

text \<open>
  \<open>targetLangForThisRequest\<close>: the first language, in the order of \<open>languageKeywords\<close>, whose
  translate phrase occurs; the language ref's value when none does.
\<close>

definition targetLangForThisRequest :: "string \<Rightarrow> string \<Rightarrow> string" where
  "targetLangForThisRequest lowerQuestion current =
     (case find (\<lambda>langName. includesStr lowerQuestion (''translate to '' @ toLowerCase langName))
             (map fst languageKeywords) of
        Some langName \<Rightarrow> langName
      | None \<Rightarrow> current)"

subsection \<open>Handlers\<close>

text \<open>
  Each handler takes the world, the render \<open>r\<close> it is a closure of, and the state it runs
  in. It reads \<open>useState\<close> variables from \<open>r\<close> and refs from the state.
\<close>

definition pinLocation :: "world \<Rightarrow> react_state \<Rightarrow> app_state \<Rightarrow> app_state" where
  "pinLocation w r s =
     (let descriptionToPin =
            (if lastSceneDescription r \<noteq> [] then lastSceneDescription r else lastDescription r)
      in if descriptionToPin = [] \<or> isLoading r then s
         else
           (let s1 = s\<lparr>isLoading := True\<rparr>;
                node = \<lparr> new_buildingId = ''uni_library_main'', new_coordinates = randomCoords w,
                         new_description = descriptionToPin, new_isGoldenPath = False \<rparr>;
                saved = saveNewPath w node;
                s2 = s1\<lparr>trace := trace s1 @ map Registry (snd saved)\<rparr>
            in (case fst saved of
                  Inr ident \<Rightarrow>
                    (let s3 = s2\<lparr>error := None\<rparr>;
                         path = fetchGoldenPath w ''uni_library_main'';
                         s4 = (emit (Registry (GoldenPathSql ''uni_library_main'')) s3)\<lparr>goldenPath := path\<rparr>
                     in playMessage w (getSystemMessage r Pinned None) s4)
                | Inl msg \<Rightarrow>
                    playMessage w (getSystemMessage r PinFailed None) (s2\<lparr>error := Some msg\<rparr>))
               \<lparr>isLoading := False\<rparr>))"

text \<open>The \<open>if (isNavIntent) { ... }\<close> block of \<open>handleUserQuestion\<close>.\<close>

definition navigateStep :: "world \<Rightarrow> react_state \<Rightarrow> string \<Rightarrow> app_state \<Rightarrow> app_state" where
  "navigateStep w r question s =
     (let locations = searchRegistry w question ''uni_library_main'';
          s1 = emit (Registry (SearchSql ''uni_library_main'' (toLowerCase question))) s
      in case locations of
           n # rest \<Rightarrow>
             playMessage w (getSystemMessage r Navigating (Some (node_description n)))
               (s1\<lparr>navigationTarget := Some (node_description n)\<rparr>)
         | [] \<Rightarrow>
             playMessage w (getSystemMessage r SignHunting (Some question))
               (s1\<lparr>navigationTarget := Some question\<rparr>))"

text \<open>The placeholder \<open>`Listening: "${question}"`\<close> shown while a voice turn runs.\<close>

definition listeningText :: "string \<Rightarrow> string" where
  "listeningText question = ''Listening: '' @ [CHR 0x22] @ question @ [CHR 0x22]"

text \<open>
  \<open>handleUserQuestion\<close>. In the \<open>try\<close> block only reading a field of a \<open>null\<close> analysis
  throws; the \<open>catch\<close> logs, and the \<open>finally\<close> clears the loading flag on both paths.
\<close>

definition handleUserQuestion :: "world \<Rightarrow> react_state \<Rightarrow> string \<Rightarrow> app_state \<Rightarrow> app_state" where
  "handleUserQuestion w r question s =
     (if \<not> videoMounted w \<or> \<not> canvasMounted w \<or> isLoading r then s
      else
        (let s1 = s\<lparr>isLoading := True, lastDescription := listeningText question\<rparr>;
             lowerQuestion = toLowerCase question
         in case detectLanguageSwitch lowerQuestion of
              Some langName \<Rightarrow> (handleLanguageChange w r langName s1)\<lparr>isLoading := False\<rparr>
            | None \<Rightarrow>
                if isPinIntent lowerQuestion then (pinLocation w r s1)\<lparr>isLoading := False\<rparr>
                else
                  (let targetLang = targetLangForThisRequest lowerQuestion (currentLanguageRef s1);
                       s2 = (if isNavIntent lowerQuestion then navigateStep w r question s1 else s1);
                       target = orUndefined (navigationTarget r);
                       s3 = emit (Vision (Some question) target targetLang) s2
                   in (case describeScene w (frame w) (Some question) target targetLang of
                         JsonNull \<Rightarrow> s3
                       | JsonScene analysis \<Rightarrow>
                           (let s4 = playMessage w (scene_description analysis)
                                       (s3\<lparr>lastDescription := scene_description analysis,
                                           lastSceneDescription := scene_description analysis\<rparr>)
                            in if truthy (navigation analysis)
                               then playMessage w (the (navigation analysis)) s4 else s4))
                      \<lparr>isLoading := False\<rparr>)))"

text \<open>
  \<open>captureAndAnalyze\<close>. A \<open>null\<close> analysis throws at \<open>analysis.description\<close>: the rest of the
  \<open>try\<close> block, the reward included, is skipped, and the \<open>finally\<close> clears the loading flag.
  The timer that clears \<open>isScanning\<close> two seconds later is the separate event
  \<open>scanTimerFired\<close>.
\<close>

definition captureAndAnalyze :: "world \<Rightarrow> react_state \<Rightarrow> app_state \<Rightarrow> app_state" where
  "captureAndAnalyze w r s =
     (if \<not> videoMounted w \<or> \<not> canvasMounted w \<or> isLoading r then s
      else
        (let s1 = s\<lparr>isLoading := True, isScanning := True\<rparr>;
             target = orUndefined (navigationTarget r);
             s2 = emit (Vision None target (currentLanguageRef s1)) s1
         in (case describeScene w (frame w) None target (currentLanguageRef s1) of
               JsonNull \<Rightarrow> s2
             | JsonScene analysis \<Rightarrow>
                 (let s3 = s2\<lparr>lastDescription := scene_description analysis,
                              lastSceneDescription := scene_description analysis\<rparr>;
                      s4 = (if truthy (hazard analysis)
                            then playMessage w (''Warning: '' @ the (hazard analysis))
                                   (playHazardAlert s3)
                            else s3);
                      s5 = (if truthy (navigationTarget r) \<and> truthy (navigation analysis)
                            then playMessage w (the (navigation analysis)) s4 else s4)
                  in s5\<lparr>solanaBalance := solanaBalance s5 + 5 / 1000\<rparr>))
            \<lparr>isLoading := False\<rparr>))"

text \<open>
  \<open>loadSpatialData\<close>: \<open>fetchGoldenPath\<close> has no error result, so the \<open>catch\<close> is not reached.
\<close>

definition loadSpatialData :: "world \<Rightarrow> app_state \<Rightarrow> app_state" where
  "loadSpatialData w s =
     (emit (Registry (GoldenPathSql ''uni_library_main'')) s)
       \<lparr>goldenPath := fetchGoldenPath w ''uni_library_main'', error := None,
         isSnowflakeConnected := Some True\<rparr>"

definition scanTimerFired :: "app_state \<Rightarrow> app_state" where
  "scanTimerFired s = s\<lparr>isScanning := False\<rparr>"

subsection \<open>Events\<close>

text \<open>
  The "hunting signs" badge of the navigation banner: shown when a target is set and no
  node of the cached verified path has a description containing it.
\<close>

definition huntingSigns :: "app_state \<Rightarrow> bool" where
  "huntingSigns s =
     (truthy (navigationTarget s) \<and>
      \<not> list_ex (\<lambda>n. includesStr (toLowerCase (node_description n))
                              (toLowerCase (the (navigationTarget s))))
           (goldenPath s))"

text \<open>
  What the page reacts to. \<open>Mounted\<close> is the mount effect (loading the verified path and
  arming the recognizer with the handlers of the first render). A button's \<open>onClick\<close> is the handler of the current render, and a
  disabled button does not fire; a recognition result goes to the handler the recognizer
  was armed with. The test-voice button, the repeat button and a saved place call
  \<open>playMessage\<close> without awaiting it; \<open>SpeechAnswered text\<close> is the arrival of the ElevenLabs
  answer for a suspended call with that text. A turn (scan, voice, pin) is handled to its
  end before the next event.
\<close>

datatype event =
    Mounted
  | VoiceResult string
  | ScanClicked
  | PinClicked
  | LanguageSelected string
  | NavigationCancelled
  | TestVoiceClicked
  | RepeatClicked
  | SavedPlaceClicked nat
  | SpeechAnswered string
  | AudioEnded
  | UtteranceEnded
  | ScanTimer

definition step :: "world \<Rightarrow> event \<Rightarrow> app_state \<Rightarrow> app_state" where
  "step w e s =
     (case e of
        Mounted \<Rightarrow> setupSpeechRecognition w (render s) None (loadSpatialData w s)
      | VoiceResult question \<Rightarrow> handleUserQuestion w (voiceClosure s) question s
      | ScanClicked \<Rightarrow> if isLoading s then s else captureAndAnalyze w (render s) s
      | PinClicked \<Rightarrow>
          if lastDescription s = [] \<or> isLoading s then s else pinLocation w (render s) s
      | LanguageSelected langName \<Rightarrow> handleLanguageChange w (render s) langName s
      | NavigationCancelled \<Rightarrow> s\<lparr>navigationTarget := None\<rparr>
      | TestVoiceClicked \<Rightarrow>
          playMessage_begin ''Hi! I'm Vision Buddy. I'm ready to help you navigate.'' s
      | RepeatClicked \<Rightarrow>
          if lastDescription s = [] then s else playMessage_begin (lastDescription s) s
      | SavedPlaceClicked i \<Rightarrow>
          if i < length (goldenPath s)
          then playMessage_begin (''Navigating to '' @ node_description (goldenPath s ! i))
                 (s\<lparr>navigationTarget := Some (node_description (goldenPath s ! i))\<rparr>)
          else s
      | SpeechAnswered text \<Rightarrow>
          if text \<in> set (pendingSpeech s) then playMessage_resume w text s else s
      | AudioEnded \<Rightarrow> audioEnded s
      | UtteranceEnded \<Rightarrow> utteranceEnded s
      | ScanTimer \<Rightarrow> scanTimerFired s)"

text \<open>A run: each event with the world that answers it.\<close>

fun run :: "(world \<times> event) list \<Rightarrow> app_state \<Rightarrow> app_state" where
  "run [] s = s"
| "run ((w, e) # es) s = run es (step w e s)"

subsection \<open>Reading the trace\<close>

text \<open>The effects a handler added, given the states before and after it.\<close>

definition newEffects :: "app_state \<Rightarrow> app_state \<Rightarrow> effect list" where
  "newEffects s s' = drop (length (trace s)) (trace s')"

fun isSearch :: "effect \<Rightarrow> bool" where
  "isSearch (Registry (SearchSql b q)) = True"
| "isSearch e = False"

fun isInsert :: "effect \<Rightarrow> bool" where
  "isInsert (Registry (InsertSql i n)) = True"
| "isInsert e = False"

fun isVision :: "effect \<Rightarrow> bool" where
  "isVision (Vision q t l) = True"
| "isVision e = False"

fun isSpeak :: "effect \<Rightarrow> bool" where
  "isSpeak (Speak t) = True"
| "isSpeak e = False"

text \<open>A registry response that carries no rows: a failed fetch, a body that is not JSON, or
  a JSON body without a \<open>data\<close> field.\<close>

fun noRows :: "registry_response \<Rightarrow> bool" where
  "noRows (FetchRejected msg) = True"
| "noRows (NotJson msg) = True"
| "noRows (JsonBody b) = (body_data b = None)"

section \<open>Concrete worlds\<close>

text \<open>
  A world in which the page is mounted, no ElevenLabs key is configured, the registry is
  unreachable and the vision call fails.
\<close>

definition offlineWorld :: world where
  "offlineWorld =
     \<lparr> videoMounted = True, canvasMounted = True, audioMounted = True,
       hasSpeechRecognition = True, frame = ''frame'',
       elevenApiKey = [], elevenVoiceId = ''pMs7uS297jtjz4kyM997'',
       elevenFetch = (\<lambda>t. ElevenRejected), audioPlay = (\<lambda>u. PlayStarted),
       snowflakeExecute = (\<lambda>q. FetchRejected ''Failed to fetch''),
       jsonParseCoords = (\<lambda>t. Inl ''Unexpected token''),
       geminiGenerate = (\<lambda>q. GenThrows), jsonParseScene = (\<lambda>t. None),
       randomId = ''abc123xyz'', randomCoords = \<lparr>coord_x = 10, coord_y = 20\<rparr> \<rparr>"

text \<open>A scene with a hazard and a direction.\<close>

definition wetFloorScene :: SceneAnalysis where
  "wetFloorScene =
     \<lparr> scene_description = ''A corridor.'', hazard = Some ''Wet floor'',
       navigation = Some ''Turn left'' \<rparr>"

definition okBody :: registry_body where
  "okBody =
     \<lparr> body_data = None, body_code = Some ''000000'', body_message = None, body_error = None,
       body_hint = None, body_detail = None \<rparr>"

text \<open>
  A world in which the vision call answers with \<open>wetFloorScene\<close>, and the registry accepts
  every statement and returns no rows.
\<close>

definition onlineWorld :: world where
  "onlineWorld =
     offlineWorld
       \<lparr> snowflakeExecute := (\<lambda>q. JsonBody okBody),
         geminiGenerate := (\<lambda>q. GenText (Some ''{}'')),
         jsonParseScene := (\<lambda>t. Some (JsonScene wetFloorScene)) \<rparr>"

text \<open>A world in which the vision call answers with the text \<open>null\<close>.\<close>

definition nullAnswerWorld :: world where
  "nullAnswerWorld =
     offlineWorld
       \<lparr> geminiGenerate := (\<lambda>q. GenText (Some ''null'')),
         jsonParseScene := (\<lambda>t. if t = ''null'' then Some JsonNull else None) \<rparr>"

text \<open>
  A world with an ElevenLabs key in which the text \<open>''B''\<close> is synthesized remotely and every
  other request to ElevenLabs fails.
\<close>

definition remoteVoiceWorld :: world where
  "remoteVoiceWorld =
     offlineWorld
       \<lparr> elevenApiKey := ''key'',
         elevenFetch := (\<lambda>t. if t = ''B'' then ElevenBlob ''blob:b'' else ElevenRejected) \<rparr>"

text \<open>
  A world whose registry holds one verified node (the elevator bank of the mock registry)
  and returns it for every read.
\<close>

definition elevatorRow :: raw_row where
  "elevatorRow =
     \<lparr> row_id = ''node_2'', row_building = ''uni_library_main'', row_coords = ''{}'',
       row_desc = ''Elevator bank. Braille buttons on the right side of the frame.'',
       row_golden = CellBool True \<rparr>"

definition registryWorld :: world where
  "registryWorld =
     offlineWorld
       \<lparr> snowflakeExecute := (\<lambda>q. JsonBody (okBody\<lparr>body_data := Some [elevatorRow]\<rparr>)),
         jsonParseCoords := (\<lambda>t. Inr \<lparr>coord_x = 15, coord_y = 45\<rparr>) \<rparr>"

text \<open>The state after the mount effect, with the registry unreachable.\<close>

definition mountedState :: app_state where
  "mountedState = step offlineWorld Mounted initialState"

section \<open>Properties\<close>

lemma includesStr_sublist: "includesStr s k = sublist k s"
  by (induction s) (auto simp: sublist_Cons_right)

subsection \<open>Helper facts and the order of the pin and navigate tests\<close>

lemma toLowerCase_append: "toLowerCase (a @ b) = toLowerCase a @ toLowerCase b"
  by (simp add: toLowerCase_def)

lemma includesStr_toLowerCase:
  "includesStr q k \<Longrightarrow> includesStr (toLowerCase q) (toLowerCase k)"
  unfolding includesStr_sublist sublist_def
  by (metis toLowerCase_append)

lemma pinKeywords_lower: "k \<in> set pinKeywords \<Longrightarrow> toLowerCase k = k"
  by (auto simp: pinKeywords_def toLowerCase_def toLowerChar_def)

lemma navKeywords_lower: "k \<in> set navKeywords \<Longrightarrow> toLowerCase k = k"
  by (auto simp: navKeywords_def toLowerCase_def toLowerChar_def)

lemma playMessage_frame [simp]:
  "trace (playMessage w t s) = trace s @ [Speak t]"
  "isLoading (playMessage w t s) = isLoading s"
  "solanaBalance (playMessage w t s) = solanaBalance s"
  "navigationTarget (playMessage w t s) = navigationTarget s"
  "goldenPath (playMessage w t s) = goldenPath s"
  "currentLanguage (playMessage w t s) = currentLanguage s"
  "currentLanguageRef (playMessage w t s) = currentLanguageRef s"
  "lastDescription (playMessage w t s) = lastDescription s"
  "lastSceneDescription (playMessage w t s) = lastSceneDescription s"
  by (simp_all add: playMessage_def playMessage_begin_def playMessage_resume_def emit_def Let_def
        split: play_result.splits)

lemma newEffects_append [simp]: "trace s' = trace s @ es \<Longrightarrow> newEffects s s' = es"
  by (simp add: newEffects_def)

lemma pinLocation_navigationTarget: "navigationTarget (pinLocation w r s) = navigationTarget s"
  by (auto simp: pinLocation_def saveNewPath_def emit_def Let_def
           split: sum.splits registry_response.splits)

lemma pinLocation_trace:
  "\<exists>es. trace (pinLocation w r s) = trace s @ es \<and> \<not> list_ex isSearch es \<and> \<not> list_ex isVision es"
  by (auto simp: pinLocation_def saveNewPath_def emit_def Let_def
           split: sum.splits registry_response.splits)

text \<open>
  Claim C1. An utterance that contains a pin keyword and a navigate keyword (as written, or
  after lower-casing) and that does not match the language-switch test is handled as a pin
  request: \<open>handleUserQuestion\<close> takes the pin branch, and in that turn it leaves the
  navigation target alone, sends no search to the registry and makes no vision call, so the
  navigate branch is never entered. The turn must have been accepted (page mounted, the
  handler's render not loading).
\<close>

theorem pin_checked_before_navigate:
  assumes mounted: "videoMounted w" "canvasMounted w"
    and idle: "\<not> isLoading r"
    and noSwitch: "detectLanguageSwitch (toLowerCase question) = None"
    and pin: "p \<in> set pinKeywords" "includesStr question p \<or> includesStr (toLowerCase question) p"
    and nav: "n \<in> set navKeywords" "includesStr question n \<or> includesStr (toLowerCase question) n"
  shows "isPinIntent (toLowerCase question) \<and> isNavIntent (toLowerCase question) \<and>
         handleUserQuestion w r question s =
           (pinLocation w r
              (s\<lparr>isLoading := True, lastDescription := listeningText question\<rparr>))
             \<lparr>isLoading := False\<rparr> \<and>
         navigationTarget (handleUserQuestion w r question s) = navigationTarget s \<and>
         \<not> list_ex isSearch (newEffects s (handleUserQuestion w r question s)) \<and>
         \<not> list_ex isVision (newEffects s (handleUserQuestion w r question s))"
proof -
  let ?lower = "toLowerCase question"
  let ?s1 = "s\<lparr>isLoading := True, lastDescription := listeningText question\<rparr>"
  have "includesStr ?lower p"
    using pin includesStr_toLowerCase [of question p] pinKeywords_lower [of p] by auto
  with pin(1) have isPin: "isPinIntent ?lower"
    by (auto simp: isPinIntent_def list_ex_iff)
  have "includesStr ?lower n"
    using nav includesStr_toLowerCase [of question n] navKeywords_lower [of n] by auto
  with nav(1) have isNav: "isNavIntent ?lower"
    by (auto simp: isNavIntent_def list_ex_iff)
  have branch: "handleUserQuestion w r question s = (pinLocation w r ?s1)\<lparr>isLoading := False\<rparr>"
    using mounted idle noSwitch isPin by (simp add: handleUserQuestion_def Let_def)
  have target: "navigationTarget (handleUserQuestion w r question s) = navigationTarget s"
    by (simp add: branch pinLocation_navigationTarget)
  obtain es where es: "trace (pinLocation w r ?s1) = trace ?s1 @ es"
      "\<not> list_ex isSearch es" "\<not> list_ex isVision es"
    using pinLocation_trace by blast
  have "trace (handleUserQuestion w r question s) = trace s @ es"
    by (simp add: branch es(1))
  then have "newEffects s (handleUserQuestion w r question s) = es"
    by (rule newEffects_append)
  with es isPin isNav branch target show ?thesis
    by simp
qed

theorem pin_checked_before_navigate_witness:
  "detectLanguageSwitch (toLowerCase ''Save the exit'') = None \<and>
   includesStr (toLowerCase ''Save the exit'') ''save'' \<and>
   includesStr ''Save the exit'' ''exit'' \<and>
   isPinIntent (toLowerCase ''Save the exit'') \<and>
   isNavIntent (toLowerCase ''Save the exit'') \<and>
   navigationTarget (handleUserQuestion onlineWorld (render mountedState) ''Save the exit'' mountedState)
     = None \<and>
   \<not> list_ex isSearch
       (newEffects mountedState
          (handleUserQuestion onlineWorld (render mountedState) ''Save the exit'' mountedState))"
proof -
  have h1: "videoMounted onlineWorld" "canvasMounted onlineWorld"
    by (simp_all add: onlineWorld_def offlineWorld_def)
  have h2: "\<not> isLoading (render mountedState)"
    by code_simp
  have h3: "detectLanguageSwitch (toLowerCase ''Save the exit'') = None"
    by code_simp
  have h4: "''save'' \<in> set pinKeywords" "''exit'' \<in> set navKeywords"
    by (simp_all add: pinKeywords_def navKeywords_def)
  have h5: "includesStr (toLowerCase ''Save the exit'') ''save''"
    by code_simp
  have h6: "includesStr ''Save the exit'' ''exit''"
    by code_simp
  have h7: "navigationTarget mountedState = None"
    by code_simp
  note c = pin_checked_before_navigate [OF h1 h2 h3 h4(1) disjI2 [OF h5] h4(2) disjI1 [OF h6],
      of mountedState]
  from c have c1: "isPinIntent (toLowerCase ''Save the exit'')"
      "isNavIntent (toLowerCase ''Save the exit'')"
    by blast+
  from c have c2: "navigationTarget
        (handleUserQuestion onlineWorld (render mountedState) ''Save the exit'' mountedState)
      = navigationTarget mountedState"
    by blast
  from c have c3: "\<not> list_ex isSearch
       (newEffects mountedState
          (handleUserQuestion onlineWorld (render mountedState) ''Save the exit'' mountedState))"
    by blast
  from h3 h5 h6 h7 c1 c2 c3 show ?thesis
    by simp
qed

subsection \<open>Vision and registry failures, and the scan reward\<close>

text \<open>
  Claim C4 (as amended). When \<open>generateContent\<close> throws, or the text it returns does not parse,
  \<open>describeScene\<close> returns (it has no error result) its fixed fallback analysis: description
  "I'm having trouble seeing the path right now.", hazard "Visual system error.", navigation
  null.
\<close>

theorem describeScene_fails_closed:
  assumes "geminiGenerate w (sceneRequest img question navTarget targetLanguage) = GenThrows \<or>
           (\<exists>t. geminiGenerate w (sceneRequest img question navTarget targetLanguage) = GenText t \<and>
                jsonParseScene w (responseText t) = None)"
  shows "describeScene w img question navTarget targetLanguage =
           JsonScene
             \<lparr> scene_description = ''I'm having trouble seeing the path right now.'',
               hazard = Some ''Visual system error.'', navigation = None \<rparr>"
  using assms
  by (auto simp: describeScene_def describeScene_try_def visionFallback_def)

theorem describeScene_fails_closed_witness:
  "geminiGenerate offlineWorld (sceneRequest ''frame'' None None ''English'') = GenThrows \<and>
   describeScene offlineWorld ''frame'' None None ''English'' =
     JsonScene
       \<lparr> scene_description = ''I'm having trouble seeing the path right now.'',
         hazard = Some ''Visual system error.'', navigation = None \<rparr>"
proof -
  have h: "geminiGenerate offlineWorld (sceneRequest ''frame'' None None ''English'') = GenThrows"
    by (simp add: offlineWorld_def)
  from describeScene_fails_closed [OF disjI1 [OF h]] h show ?thesis
    by simp
qed

text \<open>
  The claim as written names other texts: with the vision call failing, the analysis
  returned is not the one with description "unable to see clearly" and hazard
  "system error".
\<close>

theorem describeScene_default_texts_counterexample:
  "geminiGenerate offlineWorld (sceneRequest ''frame'' None None ''English'') = GenThrows \<and>
   describeScene offlineWorld ''frame'' None None ''English'' \<noteq>
     JsonScene
       \<lparr> scene_description = ''unable to see clearly'', hazard = Some ''system error'',
         navigation = None \<rparr>"
  by (simp add: describeScene_def describeScene_try_def visionFallback_def offlineWorld_def)

text \<open>
  Claim C10. The two registry reads have no error result: whatever is thrown inside their
  \<open>try\<close> block becomes the empty list. In particular a rejected fetch, a body that is not
  JSON and a JSON body without a \<open>data\<close> field give the empty list, and a navigation turn
  whose search meets one of these goes on as a sign-hunting turn.
\<close>

theorem registry_reads_degrade_to_empty:
  "(readRows w (SearchSql building (toLowerCase query)) = Inl msg \<longrightarrow>
      searchRegistry w query building = []) \<and>
   (readRows w (GoldenPathSql building) = Inl msg \<longrightarrow> fetchGoldenPath w building = []) \<and>
   (noRows (snowflakeExecute w (SearchSql building (toLowerCase query))) \<longrightarrow>
      searchRegistry w query building = []) \<and>
   (noRows (snowflakeExecute w (GoldenPathSql building)) \<longrightarrow> fetchGoldenPath w building = []) \<and>
   (noRows (snowflakeExecute w (SearchSql ''uni_library_main'' (toLowerCase question))) \<longrightarrow>
      navigateStep w r question s =
        playMessage w (getSystemMessage r SignHunting (Some question))
          ((emit (Registry (SearchSql ''uni_library_main'' (toLowerCase question))) s)
             \<lparr>navigationTarget := Some question\<rparr>))"
proof -
  have search: "searchRegistry w q b = []"
    if "noRows (snowflakeExecute w (SearchSql b (toLowerCase q)))" for q b
    using that
    by (cases "snowflakeExecute w (SearchSql b (toLowerCase q))")
       (simp_all add: searchRegistry_def readRows_def)
  have golden: "fetchGoldenPath w b = []" if "noRows (snowflakeExecute w (GoldenPathSql b))" for b
    using that
    by (cases "snowflakeExecute w (GoldenPathSql b)")
       (simp_all add: fetchGoldenPath_def readRows_def)
  show ?thesis
    using search golden
    by (simp add: searchRegistry_def fetchGoldenPath_def navigateStep_def Let_def)
qed

theorem registry_reads_degrade_to_empty_witness:
  "noRows (snowflakeExecute offlineWorld (SearchSql ''uni_library_main'' (toLowerCase ''Exit''))) \<and>
   noRows (snowflakeExecute offlineWorld (GoldenPathSql ''uni_library_main'')) \<and>
   searchRegistry offlineWorld ''Exit'' ''uni_library_main'' = [] \<and>
   fetchGoldenPath offlineWorld ''uni_library_main'' = []"
proof -
  have h1: "noRows (snowflakeExecute offlineWorld (SearchSql ''uni_library_main'' (toLowerCase ''Exit'')))"
    by (simp add: offlineWorld_def)
  have h2: "noRows (snowflakeExecute offlineWorld (GoldenPathSql ''uni_library_main''))"
    by (simp add: offlineWorld_def)
  note c = registry_reads_degrade_to_empty [of offlineWorld "''uni_library_main''" "''Exit''"]
  from c h1 have c1: "searchRegistry offlineWorld ''Exit'' ''uni_library_main'' = []"
    by blast
  from c h2 have c2: "fetchGoldenPath offlineWorld ''uni_library_main'' = []"
    by blast
  from h1 h2 c1 c2 show ?thesis
    by simp
qed

lemma playHazardAlert_frame [simp]:
  "trace (playHazardAlert s) = trace s @ [HazardAlert]"
  "isLoading (playHazardAlert s) = isLoading s"
  "solanaBalance (playHazardAlert s) = solanaBalance s"
  by (simp_all add: playHazardAlert_def emit_def)

text \<open>
  Claim C2 (as amended). A scan turn that is accepted always ends with the loading flag
  cleared. When the vision call fails (the request throws, or its answer does not parse),
  \<open>describeScene\<close> hands back its fallback analysis, so the turn goes on: it speaks the
  fallback's warning and raises the balance by 0.005. The balance is raised by 0.005, once,
  on every accepted turn whose analysis is an object, and is left as it was on a turn that
  throws (the analysis is \<open>null\<close>). A trigger that arrives while the handler's render is
  loading changes nothing.
\<close>

theorem scan_turn_ends_idle_and_rewards_completed:
  "(videoMounted w \<and> canvasMounted w \<and> \<not> isLoading r \<longrightarrow>
      \<not> isLoading (captureAndAnalyze w r s) \<and>
      (describeScene_try w (frame w) None (orUndefined (navigationTarget r)) (currentLanguageRef s)
         = None \<longrightarrow>
       newEffects s (captureAndAnalyze w r s) =
         [Vision None (orUndefined (navigationTarget r)) (currentLanguageRef s), HazardAlert,
          Speak ''Warning: Visual system error.''] \<and>
       solanaBalance (captureAndAnalyze w r s) = solanaBalance s + 5 / 1000) \<and>
      (describeScene w (frame w) None (orUndefined (navigationTarget r)) (currentLanguageRef s)
         = JsonScene a \<longrightarrow>
       solanaBalance (captureAndAnalyze w r s) = solanaBalance s + 5 / 1000) \<and>
      (describeScene w (frame w) None (orUndefined (navigationTarget r)) (currentLanguageRef s)
         = JsonNull \<longrightarrow>
       solanaBalance (captureAndAnalyze w r s) = solanaBalance s \<and>
       newEffects s (captureAndAnalyze w r s) =
         [Vision None (orUndefined (navigationTarget r)) (currentLanguageRef s)])) \<and>
   (isLoading r \<longrightarrow> captureAndAnalyze w r s = s)"
  by (simp add: captureAndAnalyze_def Let_def emit_def describeScene_def visionFallback_def
        truthy_def newEffects_def)

theorem scan_turn_ends_idle_and_rewards_completed_witness:
  "videoMounted nullAnswerWorld \<and> canvasMounted nullAnswerWorld \<and>
   \<not> isLoading (render mountedState) \<and>
   describeScene nullAnswerWorld (frame nullAnswerWorld) None None ''English'' = JsonNull \<and>
   \<not> isLoading (captureAndAnalyze nullAnswerWorld (render mountedState) mountedState) \<and>
   solanaBalance (captureAndAnalyze nullAnswerWorld (render mountedState) mountedState)
     = solanaBalance mountedState \<and>
   describeScene_try offlineWorld (frame offlineWorld) None None ''English'' = None \<and>
   solanaBalance (captureAndAnalyze offlineWorld (render mountedState) mountedState)
     = solanaBalance mountedState + 5 / 1000"
proof -
  have h: "videoMounted nullAnswerWorld" "canvasMounted nullAnswerWorld"
      "videoMounted offlineWorld" "canvasMounted offlineWorld"
      "\<not> isLoading (render mountedState)"
    by code_simp+
  have e: "orUndefined (navigationTarget (render mountedState)) = None"
      "currentLanguageRef mountedState = ''English''"
    by code_simp+
  have n: "describeScene nullAnswerWorld (frame nullAnswerWorld) None None ''English'' = JsonNull"
    by code_simp
  have f: "describeScene_try offlineWorld (frame offlineWorld) None None ''English'' = None"
    by code_simp
  note c1 = scan_turn_ends_idle_and_rewards_completed
    [of nullAnswerWorld "render mountedState" mountedState]
  note c2 = scan_turn_ends_idle_and_rewards_completed
    [of offlineWorld "render mountedState" mountedState]
  from c1 h e n have a1: "\<not> isLoading (captureAndAnalyze nullAnswerWorld (render mountedState) mountedState)"
      "solanaBalance (captureAndAnalyze nullAnswerWorld (render mountedState) mountedState)
         = solanaBalance mountedState"
    by simp_all
  from c2 h e f have a2: "solanaBalance (captureAndAnalyze offlineWorld (render mountedState) mountedState)
     = solanaBalance mountedState + 5 / 1000"
    by simp
  from h n f a1 a2 show ?thesis
    by simp
qed

text \<open>
  The claim as written fails: in the offline world the vision call of a scan turn throws,
  and the turn still raises the balance from 1.245 to 1.250.
\<close>

theorem failed_vision_still_rewarded_counterexample:
  "describeScene_try offlineWorld (frame offlineWorld) None None ''English'' = None \<and>
   solanaBalance mountedState = 1245 / 1000 \<and>
   solanaBalance (run [(offlineWorld, ScanClicked)] mountedState) = 1250 / 1000"
  by code_simp

subsection \<open>What a turn says, and in which order\<close>

lemma navigateStep_frame [simp]:
  "trace (navigateStep w r q s) =
     trace s @ [Registry (SearchSql ''uni_library_main'' (toLowerCase q)),
                Speak (case searchRegistry w q ''uni_library_main'' of
                         [] \<Rightarrow> getSystemMessage r SignHunting (Some q)
                       | n # rest \<Rightarrow> getSystemMessage r Navigating (Some (node_description n)))]"
  "navigationTarget (navigateStep w r q s) =
     (case searchRegistry w q ''uni_library_main'' of
        [] \<Rightarrow> Some q | n # rest \<Rightarrow> Some (node_description n))"
  "goldenPath (navigateStep w r q s) = goldenPath s"
  "currentLanguage (navigateStep w r q s) = currentLanguage s"
  "currentLanguageRef (navigateStep w r q s) = currentLanguageRef s"
  "isLoading (navigateStep w r q s) = isLoading s"
  by (simp_all add: navigateStep_def Let_def emit_def split: list.splits)

text \<open>
  The effects of a voice turn that is neither a language switch nor a pin request: the
  search and its announcement when the utterance has a navigate keyword, the vision call,
  and, unless the analysis is \<open>null\<close>, the description and then the navigation guidance.
\<close>

lemma question_turn_effects:
  assumes "videoMounted w" "canvasMounted w" "\<not> isLoading r"
    and "detectLanguageSwitch (toLowerCase q) = None"
    and "\<not> isPinIntent (toLowerCase q)"
  shows "newEffects s (handleUserQuestion w r q s) =
           (if isNavIntent (toLowerCase q)
            then [Registry (SearchSql ''uni_library_main'' (toLowerCase q)),
                  Speak (case searchRegistry w q ''uni_library_main'' of
                           [] \<Rightarrow> getSystemMessage r SignHunting (Some q)
                         | n # rest \<Rightarrow> getSystemMessage r Navigating (Some (node_description n)))]
            else [])
           @ [Vision (Some q) (orUndefined (navigationTarget r))
                (targetLangForThisRequest (toLowerCase q) (currentLanguageRef s))]
           @ (case describeScene w (frame w) (Some q) (orUndefined (navigationTarget r))
                     (targetLangForThisRequest (toLowerCase q) (currentLanguageRef s)) of
                JsonNull \<Rightarrow> []
              | JsonScene a \<Rightarrow>
                  Speak (scene_description a)
                    # (if truthy (navigation a) then [Speak (the (navigation a))] else []))"
  using assms
  by (simp add: handleUserQuestion_def Let_def emit_def newEffects_def split: scene_json.splits)

lemma question_turn_frame:
  assumes "videoMounted w" "canvasMounted w" "\<not> isLoading r"
    and "detectLanguageSwitch (toLowerCase q) = None"
    and "\<not> isPinIntent (toLowerCase q)"
  shows "\<not> isLoading (handleUserQuestion w r q s)"
    and "currentLanguage (handleUserQuestion w r q s) = currentLanguage s"
    and "currentLanguageRef (handleUserQuestion w r q s) = currentLanguageRef s"
    and "goldenPath (handleUserQuestion w r q s) = goldenPath s"
    and "navigationTarget (handleUserQuestion w r q s) =
           (if isNavIntent (toLowerCase q)
            then (case searchRegistry w q ''uni_library_main'' of
                    [] \<Rightarrow> Some q | n # rest \<Rightarrow> Some (node_description n))
            else navigationTarget s)"
  using assms
  by (simp_all add: handleUserQuestion_def Let_def emit_def split: scene_json.splits)

text \<open>
  The scan path speaks a hazard first: on an accepted scan turn whose analysis has a
  non-empty hazard, the hazard sound and the spoken warning follow the vision call, the
  navigation guidance comes after them when a target is set and guidance is present, and
  the description is not spoken.
\<close>

lemma scan_turn_speaks_hazard_first:
  assumes "videoMounted w" "canvasMounted w" "\<not> isLoading r"
    and "describeScene w (frame w) None (orUndefined (navigationTarget r)) (currentLanguageRef s)
           = JsonScene a"
    and "truthy (hazard a)"
  shows "newEffects s (captureAndAnalyze w r s) =
           [Vision None (orUndefined (navigationTarget r)) (currentLanguageRef s), HazardAlert,
            Speak (''Warning: '' @ the (hazard a))]
           @ (if truthy (navigationTarget r) \<and> truthy (navigation a)
              then [Speak (the (navigation a))] else [])"
  using assms by (simp add: captureAndAnalyze_def Let_def emit_def newEffects_def)

text \<open>
  Claim C5, evaluated on the code. On the voice turn "what is ahead" the analysis carries
  the hazard "Wet floor"; the turn speaks the description and then the navigation
  guidance, and never the hazard. The scan turn on the same scene speaks the warning
  first.
\<close>

theorem voice_turn_never_speaks_hazard:
  "describeScene onlineWorld (frame onlineWorld) (Some ''what is ahead'') None ''English''
     = JsonScene wetFloorScene \<and>
   hazard wetFloorScene = Some ''Wet floor'' \<and>
   newEffects mountedState
     (handleUserQuestion onlineWorld (voiceClosure mountedState) ''what is ahead'' mountedState) =
     [Vision (Some ''what is ahead'') None ''English'', Speak ''A corridor.'', Speak ''Turn left''] \<and>
   newEffects mountedState (captureAndAnalyze onlineWorld (render mountedState) mountedState) =
     [Vision None None ''English'', HazardAlert, Speak ''Warning: Wet floor'']"
  by code_simp

theorem voice_turn_never_speaks_hazard_witness:
  "Speak ''Warning: Wet floor''
     \<notin> set (newEffects mountedState
         (handleUserQuestion onlineWorld (voiceClosure mountedState) ''what is ahead'' mountedState))"
  using voice_turn_never_speaks_hazard by simp

subsection \<open>Navigation target and translation\<close>

lemma isNavIntent_nonempty: "isNavIntent (toLowerCase q) \<Longrightarrow> q \<noteq> []"
  by (auto simp: isNavIntent_def navKeywords_def toLowerCase_def)

text \<open>
  Claim C6 (as amended). A navigation turn whose registry search returns no node ends
  normally (loading flag cleared); the navigation target becomes the utterance as spoken;
  the turn's first two effects are the search and the sign-hunting announcement carrying
  the utterance (in English: "I'll look for signs for ... Let's go."). No match flag is
  stored: the "hunting signs" indicator is computed from the cached verified path, and is on
  exactly when no cached node's description contains the target, ignoring case.
\<close>

theorem unmatched_target_hunts_signs:
  assumes "videoMounted w" "canvasMounted w" "\<not> isLoading r"
    and "detectLanguageSwitch (toLowerCase q) = None"
    and "\<not> isPinIntent (toLowerCase q)"
    and "isNavIntent (toLowerCase q)"
    and "searchRegistry w q ''uni_library_main'' = []"
  shows "\<not> isLoading (handleUserQuestion w r q s) \<and>
         navigationTarget (handleUserQuestion w r q s) = Some q \<and>
         take 2 (newEffects s (handleUserQuestion w r q s)) =
           [Registry (SearchSql ''uni_library_main'' (toLowerCase q)),
            Speak (getSystemMessage r SignHunting (Some q))] \<and>
         (currentLanguage r = ''English'' \<longrightarrow>
            getSystemMessage r SignHunting (Some q) = ''I'll look for signs for '' @ q @ ''. Let's go.'') \<and>
         huntingSigns (handleUserQuestion w r q s) =
           (\<not> list_ex (\<lambda>n. includesStr (toLowerCase (node_description n)) (toLowerCase q))
                (goldenPath s))"
proof -
  let ?s' = "handleUserQuestion w r q s"
  note pre = assms(1-5)
  have idle: "\<not> isLoading ?s'"
    by (rule question_turn_frame(1) [OF pre])
  have target: "navigationTarget ?s' = Some q"
    using question_turn_frame(5) [OF pre, of s] assms(6,7) by simp
  have path: "goldenPath ?s' = goldenPath s"
    by (rule question_turn_frame(4) [OF pre])
  have effects: "take 2 (newEffects s ?s') =
      [Registry (SearchSql ''uni_library_main'' (toLowerCase q)),
       Speak (getSystemMessage r SignHunting (Some q))]"
    using question_turn_effects [OF pre, of s] assms(6,7) by simp
  have english: "currentLanguage r = ''English'' \<longrightarrow>
      getSystemMessage r SignHunting (Some q) = ''I'll look for signs for '' @ q @ ''. Let's go.''"
    by (simp add: getSystemMessage_def messages_def)
  have "q \<noteq> []"
    using assms(6) by (rule isNavIntent_nonempty)
  then have badge: "huntingSigns ?s' =
      (\<not> list_ex (\<lambda>n. includesStr (toLowerCase (node_description n)) (toLowerCase q)) (goldenPath s))"
    by (simp add: huntingSigns_def target path truthy_def)
  from idle target effects english badge show ?thesis
    by blast
qed

theorem unmatched_target_hunts_signs_witness:
  "detectLanguageSwitch (toLowerCase ''where is the restroom'') = None \<and>
   isNavIntent (toLowerCase ''where is the restroom'') \<and>
   searchRegistry onlineWorld ''where is the restroom'' ''uni_library_main'' = [] \<and>
   navigationTarget
     (handleUserQuestion onlineWorld (render mountedState) ''where is the restroom'' mountedState)
     = Some ''where is the restroom'' \<and>
   take 2 (newEffects mountedState
     (handleUserQuestion onlineWorld (render mountedState) ''where is the restroom'' mountedState)) =
     [Registry (SearchSql ''uni_library_main'' ''where is the restroom''),
      Speak ''I'll look for signs for where is the restroom. Let's go.''] \<and>
   huntingSigns
     (handleUserQuestion onlineWorld (render mountedState) ''where is the restroom'' mountedState)"
proof -
  have h: "videoMounted onlineWorld" "canvasMounted onlineWorld" "\<not> isLoading (render mountedState)"
      "detectLanguageSwitch (toLowerCase ''where is the restroom'') = None"
      "\<not> isPinIntent (toLowerCase ''where is the restroom'')"
      "isNavIntent (toLowerCase ''where is the restroom'')"
      "searchRegistry onlineWorld ''where is the restroom'' ''uni_library_main'' = []"
    by code_simp+
  have e: "currentLanguage (render mountedState) = ''English''" "goldenPath mountedState = []"
      "toLowerCase ''where is the restroom'' = ''where is the restroom''"
    by code_simp+
  note c = unmatched_target_hunts_signs [OF h, of mountedState]
  from c have c1: "navigationTarget
     (handleUserQuestion onlineWorld (render mountedState) ''where is the restroom'' mountedState)
     = Some ''where is the restroom''"
    by blast
  from c e have c2: "take 2 (newEffects mountedState
     (handleUserQuestion onlineWorld (render mountedState) ''where is the restroom'' mountedState)) =
     [Registry (SearchSql ''uni_library_main'' ''where is the restroom''),
      Speak (''I'll look for signs for '' @ ''where is the restroom'' @ ''. Let's go.'')]"
    by simp
  from c e have c3: "huntingSigns
     (handleUserQuestion onlineWorld (render mountedState) ''where is the restroom'' mountedState)"
    by simp
  from h c1 c2 c3 show ?thesis
    by simp
qed

text \<open>
  The claim as written fails where it says the state is flagged unmatched. The verified
  path cached at mount holds the elevator bank; the registry is then unreachable, so the
  search for "elevator" returns no node and the sign-hunting announcement is made, yet the
  only unmatched indicator the program has, the "hunting signs" badge, is off.
\<close>

theorem zero_match_not_flagged_counterexample:
  "searchRegistry offlineWorld ''elevator'' ''uni_library_main'' = [] \<and>
   navigationTarget (run [(registryWorld, Mounted), (offlineWorld, VoiceResult ''elevator'')] initialState)
     = Some ''elevator'' \<and>
   Speak ''I'll look for signs for elevator. Let's go.''
     \<in> set (trace (run [(registryWorld, Mounted), (offlineWorld, VoiceResult ''elevator'')] initialState)) \<and>
   \<not> huntingSigns (run [(registryWorld, Mounted), (offlineWorld, VoiceResult ''elevator'')] initialState)"
  by code_simp

text \<open>
  Claim C8 (as amended). On a voice turn that reaches the vision call there is exactly one
  vision call; its language argument is the first language, in the order of the language
  table (Spanish, French, German, Chinese, Japanese, Hindi, English, Portuguese, Italian),
  whose phrase "translate to <language>" occurs in the lower-cased utterance, and the
  language ref's value when no such phrase occurs. The turn changes neither the language
  state variable nor the language ref.
\<close>

theorem translate_overrides_one_request:
  assumes "videoMounted w" "canvasMounted w" "\<not> isLoading r"
    and "detectLanguageSwitch (toLowerCase q) = None"
    and "\<not> isPinIntent (toLowerCase q)"
  shows "(find (\<lambda>langName. includesStr (toLowerCase q) (''translate to '' @ toLowerCase langName))
            (map fst languageKeywords) = Some L \<longrightarrow>
          filter isVision (newEffects s (handleUserQuestion w r q s)) =
            [Vision (Some q) (orUndefined (navigationTarget r)) L]) \<and>
         (find (\<lambda>langName. includesStr (toLowerCase q) (''translate to '' @ toLowerCase langName))
            (map fst languageKeywords) = None \<longrightarrow>
          filter isVision (newEffects s (handleUserQuestion w r q s)) =
            [Vision (Some q) (orUndefined (navigationTarget r)) (currentLanguageRef s)]) \<and>
         currentLanguage (handleUserQuestion w r q s) = currentLanguage s \<and>
         currentLanguageRef (handleUserQuestion w r q s) = currentLanguageRef s"
proof -
  have vision: "filter isVision (newEffects s (handleUserQuestion w r q s)) =
      [Vision (Some q) (orUndefined (navigationTarget r))
         (targetLangForThisRequest (toLowerCase q) (currentLanguageRef s))]"
    using question_turn_effects [OF assms, of s] by (simp split: scene_json.splits)
  show ?thesis
    using vision question_turn_frame(2,3) [OF assms, of s]
    by (simp add: targetLangForThisRequest_def)
qed

theorem translate_overrides_one_request_witness:
  "find (\<lambda>langName. includesStr (toLowerCase ''Translate to French please'')
                       (''translate to '' @ toLowerCase langName))
     (map fst languageKeywords) = Some ''French'' \<and>
   filter isVision (newEffects mountedState
     (handleUserQuestion onlineWorld (render mountedState) ''Translate to French please'' mountedState)) =
     [Vision (Some ''Translate to French please'') None ''French''] \<and>
   currentLanguageRef
     (handleUserQuestion onlineWorld (render mountedState) ''Translate to French please'' mountedState)
     = ''English''"
proof -
  have h: "videoMounted onlineWorld" "canvasMounted onlineWorld" "\<not> isLoading (render mountedState)"
      "detectLanguageSwitch (toLowerCase ''Translate to French please'') = None"
      "\<not> isPinIntent (toLowerCase ''Translate to French please'')"
    by code_simp+
  have f: "find (\<lambda>langName. includesStr (toLowerCase ''Translate to French please'')
                       (''translate to '' @ toLowerCase langName))
     (map fst languageKeywords) = Some ''French''"
    by code_simp
  have e: "orUndefined (navigationTarget (render mountedState)) = None"
      "currentLanguageRef mountedState = ''English''"
    by code_simp+
  note c = translate_overrides_one_request [OF h, of "''French''" mountedState]
  from c f e have c1: "filter isVision (newEffects mountedState
     (handleUserQuestion onlineWorld (render mountedState) ''Translate to French please'' mountedState)) =
     [Vision (Some ''Translate to French please'') None ''French'']"
    by simp
  from c e have c2: "currentLanguageRef
     (handleUserQuestion onlineWorld (render mountedState) ''Translate to French please'' mountedState)
     = ''English''"
    by simp
  from f c1 c2 show ?thesis
    by simp
qed

text \<open>
  The claim as written fails for an utterance with two translate phrases: French is a known
  language and "translate to french" occurs, yet the vision call is made in Spanish, the
  language listed first.
\<close>

theorem two_translate_phrases_counterexample:
  "''French'' \<in> set (map fst languageKeywords) \<and>
   includesStr (toLowerCase ''translate to french and translate to spanish'')
     (''translate to '' @ toLowerCase ''French'') \<and>
   detectLanguageSwitch (toLowerCase ''translate to french and translate to spanish'') = None \<and>
   \<not> isPinIntent (toLowerCase ''translate to french and translate to spanish'') \<and>
   filter isVision (newEffects mountedState
     (handleUserQuestion onlineWorld (render mountedState)
        ''translate to french and translate to spanish'' mountedState)) =
     [Vision (Some ''translate to french and translate to spanish'') None ''Spanish'']"
  by code_simp

subsection \<open>Pinning, playback and the target passed to the vision call\<close>

text \<open>
  A pin request whose handler sees neither a scene description nor any displayed text
  (both variables empty in its render) does nothing: \<open>pinLocation\<close> returns the state
  unchanged, and a voice turn classified as a pin request only sets the "Listening"
  placeholder and clears the loading flag; no statement is sent to the registry.
\<close>

lemma pin_without_text_is_noop:
  "(lastSceneDescription r = [] \<and> lastDescription r = [] \<longrightarrow> pinLocation w r s = s) \<and>
   (videoMounted w \<and> canvasMounted w \<and> \<not> isLoading r \<and>
    detectLanguageSwitch (toLowerCase q) = None \<and> isPinIntent (toLowerCase q) \<and>
    lastSceneDescription r = [] \<and> lastDescription r = [] \<longrightarrow>
      handleUserQuestion w r q s = s\<lparr>lastDescription := listeningText q, isLoading := False\<rparr> \<and>
      newEffects s (handleUserQuestion w r q s) = [])"
  by (simp add: pinLocation_def handleUserQuestion_def Let_def newEffects_def)

text \<open>
  Claim C9, evaluated on the code. The first "pin this" after mounting is a no-op, as the
  claim says: it sends nothing to the registry. It leaves its "Listening" placeholder in
  \<open>lastDescription\<close>, though. No vision call has been made and no scene description is
  stored, yet pressing the pin button then sends an INSERT whose description is the
  placeholder; so does a second "pin this" by voice once the recognizer has been re-armed
  from the language menu.
\<close>

theorem placeholder_is_pinned:
  "filter isInsert
     (trace (run [(onlineWorld, Mounted), (onlineWorld, VoiceResult ''pin this'')] initialState)) = [] \<and>
   filter isVision
     (trace (run [(onlineWorld, Mounted), (onlineWorld, VoiceResult ''pin this'')] initialState)) = [] \<and>
   lastSceneDescription
     (run [(onlineWorld, Mounted), (onlineWorld, VoiceResult ''pin this'')] initialState) = [] \<and>
   filter isInsert
     (trace (run [(onlineWorld, Mounted), (onlineWorld, VoiceResult ''pin this''),
                  (onlineWorld, PinClicked)] initialState)) =
     [Registry (InsertSql ''node_abc123xyz''
        \<lparr> new_buildingId = ''uni_library_main'', new_coordinates = \<lparr>coord_x = 10, coord_y = 20\<rparr>,
          new_description = listeningText ''pin this'', new_isGoldenPath = False \<rparr>)] \<and>
   filter isInsert
     (trace (run [(onlineWorld, Mounted), (onlineWorld, VoiceResult ''pin this''),
                  (onlineWorld, LanguageSelected ''English''),
                  (onlineWorld, VoiceResult ''pin this'')] initialState)) =
     [Registry (InsertSql ''node_abc123xyz''
        \<lparr> new_buildingId = ''uni_library_main'', new_coordinates = \<lparr>coord_x = 10, coord_y = 20\<rparr>,
          new_description = listeningText ''pin this'', new_isGoldenPath = False \<rparr>)]"
  by code_simp

theorem placeholder_is_pinned_witness:
  "filter isInsert
     (trace (run [(onlineWorld, Mounted), (onlineWorld, VoiceResult ''pin this''),
                  (onlineWorld, PinClicked)] initialState)) \<noteq> []"
  using placeholder_is_pinned by simp

text \<open>
  Claim C3 (as amended). A call of \<open>playMessage\<close> sets the playing flag and cancels local
  synthesis when it is made. When the answer of ElevenLabs for a text arrives with a URL,
  the audio element is mounted and playback starts, the audio element plays that URL,
  whatever it played before. When a call runs from start to answer with nothing between
  and is synthesized remotely, its audio is the only active output. The completion
  callbacks (the audio element's \<open>ended\<close> listener and an utterance's \<open>onend\<close>) clear the
  playing flag in every state, leaving the other output as it is: they do not look at which
  utterance is current, and the program keeps no generation counter.
\<close>

theorem playback_start_and_unguarded_completion:
  "isAudioPlaying (playMessage_begin b s) \<and> synthQueue (playMessage_begin b s) = [] \<and>
   (truthy (elevenLabs_speak w b) \<and> audioMounted w \<and>
    audioPlay w (the (elevenLabs_speak w b)) = PlayStarted \<longrightarrow>
      audioActive (playMessage_resume w b s) \<and>
      audioSrc (playMessage_resume w b s) = elevenLabs_speak w b \<and>
      isAudioPlaying (playMessage w b s) \<and> audioSrc (playMessage w b s) = elevenLabs_speak w b \<and>
      activePlaybacks (playMessage w b s) = 1) \<and>
   \<not> isAudioPlaying (audioEnded s) \<and> synthQueue (audioEnded s) = synthQueue s \<and>
   \<not> isAudioPlaying (utteranceEnded s) \<and> audioActive (utteranceEnded s) = audioActive s \<and>
   audioSrc (utteranceEnded s) = audioSrc s"
  by (simp add: playMessage_def playMessage_begin_def playMessage_resume_def Let_def emit_def
        activePlaybacks_def audioEnded_def utteranceEnded_def)

theorem playback_start_and_unguarded_completion_witness:
  "truthy (elevenLabs_speak remoteVoiceWorld ''B'') \<and> audioMounted remoteVoiceWorld \<and>
   audioPlay remoteVoiceWorld (the (elevenLabs_speak remoteVoiceWorld ''B'')) = PlayStarted \<and>
   activePlaybacks (playMessage remoteVoiceWorld ''B'' (playMessage remoteVoiceWorld ''A'' mountedState))
     = 1 \<and>
   audioSrc (playMessage remoteVoiceWorld ''B'' (playMessage remoteVoiceWorld ''A'' mountedState))
     = Some ''blob:b''"
proof -
  have h: "truthy (elevenLabs_speak remoteVoiceWorld ''B'')" "audioMounted remoteVoiceWorld"
      "audioPlay remoteVoiceWorld (the (elevenLabs_speak remoteVoiceWorld ''B'')) = PlayStarted"
    by code_simp+
  have e: "elevenLabs_speak remoteVoiceWorld ''B'' = Some ''blob:b''"
    by code_simp
  note c = playback_start_and_unguarded_completion
    [of "''B''" "playMessage remoteVoiceWorld ''A'' mountedState" remoteVoiceWorld]
  from c h have c1: "activePlaybacks
      (playMessage remoteVoiceWorld ''B'' (playMessage remoteVoiceWorld ''A'' mountedState)) = 1"
    by blast
  from c h have "audioSrc
      (playMessage remoteVoiceWorld ''B'' (playMessage remoteVoiceWorld ''A'' mountedState))
     = elevenLabs_speak remoteVoiceWorld ''B''"
    by blast
  with e have c2: "audioSrc
      (playMessage remoteVoiceWorld ''B'' (playMessage remoteVoiceWorld ''A'' mountedState))
     = Some ''blob:b''"
    by simp
  from h c1 c2 show ?thesis
    by simp
qed

text \<open>
  The claim as written fails. \<open>speak(A)\<close> is called, then \<open>speak(B)\<close> while A's request to
  ElevenLabs is still under way. A's request fails, so A is handed to local synthesis; B's
  request succeeds, so B plays on the audio element. Two outputs are now active, and when
  A's utterance ends its callback clears the playing flag while B's audio is playing.
\<close>

theorem stale_completion_clears_flag_counterexample:
  "pendingSpeech (playMessage_begin ''B'' (playMessage_begin ''A'' mountedState)) = [''A'', ''B''] \<and>
   activePlaybacks
     (playMessage_resume remoteVoiceWorld ''B''
        (playMessage_resume remoteVoiceWorld ''A''
           (playMessage_begin ''B'' (playMessage_begin ''A'' mountedState)))) = 2 \<and>
   audioSrc
     (playMessage_resume remoteVoiceWorld ''B''
        (playMessage_resume remoteVoiceWorld ''A''
           (playMessage_begin ''B'' (playMessage_begin ''A'' mountedState)))) = Some ''blob:b'' \<and>
   map utter_text
     (synthQueue
        (playMessage_resume remoteVoiceWorld ''B''
           (playMessage_resume remoteVoiceWorld ''A''
              (playMessage_begin ''B'' (playMessage_begin ''A'' mountedState))))) = [''A''] \<and>
   isAudioPlaying
     (playMessage_resume remoteVoiceWorld ''B''
        (playMessage_resume remoteVoiceWorld ''A''
           (playMessage_begin ''B'' (playMessage_begin ''A'' mountedState)))) \<and>
   \<not> isAudioPlaying
       (utteranceEnded
          (playMessage_resume remoteVoiceWorld ''B''
             (playMessage_resume remoteVoiceWorld ''A''
                (playMessage_begin ''B'' (playMessage_begin ''A'' mountedState))))) \<and>
   audioActive
     (utteranceEnded
        (playMessage_resume remoteVoiceWorld ''B''
           (playMessage_resume remoteVoiceWorld ''A''
              (playMessage_begin ''B'' (playMessage_begin ''A'' mountedState)))))"
  by code_simp

text \<open>
  Claim C7, evaluated on the code. A voice turn "where is the exit" resolves a new target
  (the registry has no match, so the target is the utterance), but the vision call of that
  same turn is made without a target; a later voice turn still passes none, although the
  target is set; the next scan passes it.
\<close>

theorem vision_call_misses_new_target:
  "navigationTarget
     (run [(onlineWorld, Mounted), (onlineWorld, VoiceResult ''where is the exit'')] initialState)
     = Some ''where is the exit'' \<and>
   filter isVision
     (trace (run [(onlineWorld, Mounted), (onlineWorld, VoiceResult ''where is the exit''),
                  (onlineWorld, VoiceResult ''what is ahead''), (onlineWorld, ScanClicked)]
               initialState)) =
     [Vision (Some ''where is the exit'') None ''English'',
      Vision (Some ''what is ahead'') None ''English'',
      Vision None (Some ''where is the exit'') ''English'']"
  by code_simp

theorem vision_call_misses_new_target_witness:
  "Vision (Some ''where is the exit'') None ''English''
     \<in> set (filter isVision
         (trace (run [(onlineWorld, Mounted), (onlineWorld, VoiceResult ''where is the exit''),
                      (onlineWorld, VoiceResult ''what is ahead''), (onlineWorld, ScanClicked)]
                   initialState)))"
  using vision_call_misses_new_target by simp

end
